theory Spec2Isabelle
  imports Complex_Main "HOL-Library.Log_Nat"
begin

section \<open>Python numerics used by \<^verbatim>\<open>spec.py\<close>\<close>

text \<open>
  The derived lengths of \<^verbatim>\<open>Spectrogram\<close> are Python integers obtained with
  \<^verbatim>\<open>round(a / b)\<close>. The operands are exact rationals here; Python computes the
  quotient in binary floating point, which agrees with the exact quotient on which side
  of a half-integer it lies for the integer operands the application feeds in (sample
  rates and millisecond values far below \<open>2^52\<close>). The rounding of the arrays' contents
  is not modelled at all: arrays are opaque values of a type parameter.
\<close>

text \<open>Exceptions: the ones Python raises by itself in \<^verbatim>\<open>spec.py\<close> and \<^verbatim>\<open>main.py\<close>, and
  any exception \<open>'x\<close> raised inside numpy, librosa, soundfile or base64.\<close>

datatype 'x error = ZeroDivisionError | ValueError | AttributeError | LibraryError 'x

text \<open>\<^verbatim>\<open>round(x)\<close> with one argument: to the nearest integer, ties to the even one.\<close>

definition py_round :: "rat \<Rightarrow> int" where
  "py_round x =
     (let f = \<lfloor>x\<rfloor>; d = x - of_int f
      in if d < 1 / 2 then f
         else if 1 / 2 < d then f + 1
         else if even f then f else f + 1)"

text \<open>\<^verbatim>\<open>round(a / b)\<close> for an integer \<open>a\<close>: true division raises on a zero divisor.\<close>

definition round_div :: "int \<Rightarrow> rat \<Rightarrow> 'x error + int" where
  "round_div a b = (if b = 0 then Inl ZeroDivisionError else Inr (py_round (of_int a / b)))"

text \<open>\<^verbatim>\<open>round(self._sr * win_ms / 1000)\<close>\<close>

definition win_length_of :: "int \<Rightarrow> rat \<Rightarrow> int" where
  "win_length_of sr win_ms = py_round (of_int sr * win_ms / 1000)"

text \<open>
  \<^verbatim>\<open>int(2**np.ceil(np.log2(win_length)))\<close>. For a positive length this is two to the
  power \<open>\<lceil>log\<^sub>2 L\<rceil>\<close> (\<^const>\<open>ceillog2\<close> is \<open>nat \<lceil>log 2 (real n)\<rceil>\<close>). For \<open>0\<close>, numpy's
  \<^verbatim>\<open>log2\<close> gives \<open>-inf\<close> (with a warning, not an exception), \<^verbatim>\<open>2**-inf\<close> is \<open>0.0\<close> and
  the result is \<open>0\<close>. For a negative length \<^verbatim>\<open>log2\<close> gives \<open>nan\<close> and \<^verbatim>\<open>int(nan)\<close>
  raises \<^verbatim>\<open>ValueError\<close>. The logarithm is the exact one here; the floating-point one
  has the same ceiling for every window length an audio file can give (below \<open>2^47\<close>).
\<close>

definition n_fft_of :: "int \<Rightarrow> 'x error + int" where
  "n_fft_of L =
     (if L < 0 then Inl ValueError
      else if L = 0 then Inr 0
      else Inr (2 ^ ceillog2 (nat L)))"

text \<open>
  The specification's phrase ``\<open>n\<close> is the smallest power of two greater than or equal
  to \<open>L\<close>'', as a predicate to compare the computed FFT size with.
\<close>

definition smallest_power_of_two_geq :: "int \<Rightarrow> int \<Rightarrow> bool" where
  "smallest_power_of_two_geq n L =
     ((\<exists>k::nat. n = 2 ^ k) \<and> L \<le> n \<and> (\<forall>j::nat. L \<le> 2 ^ j \<longrightarrow> n \<le> 2 ^ j))"

section \<open>Objects and the numeric libraries\<close>

text \<open>
  A numpy array is an object: a value \<open>val\<close> with an identity \<open>oid\<close>. No statement of
  \<^verbatim>\<open>spec.py\<close> writes into an existing array; attributes are only rebound to arrays that
  a library call has just created, so an object's contents never change and the pair is
  enough. Every rebinding takes the next identity from a counter that is passed along.
\<close>

datatype 'a obj = Obj (oid: nat) (val: 'a)

text \<open>
  The calls into numpy and librosa, one field per call of the source. They are
  parameters of the model: nothing is assumed about what they compute or when they raise.
\<close>

record ('a, 'x) numlib =
  ndim :: "'a \<Rightarrow> nat"
  mean_axis1 :: "'a \<Rightarrow> 'a"
  stft :: "'a \<Rightarrow> int \<Rightarrow> int \<Rightarrow> int \<Rightarrow> 'x + 'a"
  np_abs :: "'a \<Rightarrow> 'a"
  times :: "'a \<Rightarrow> rat \<Rightarrow> 'a"
  amplitude_to_db :: "'a \<Rightarrow> rat \<Rightarrow> int \<Rightarrow> 'x + 'a"
  frame_times :: "'a \<Rightarrow> int \<Rightarrow> int \<Rightarrow> 'x + 'a"
  linspace :: "int \<Rightarrow> int \<Rightarrow> int \<Rightarrow> 'x + 'a"
  freq_expr_tile :: "'a \<Rightarrow> 'a \<Rightarrow> 'x + 'a"
  mel_filter :: "int \<Rightarrow> int \<Rightarrow> int \<Rightarrow> 'x + 'a"
  matmul :: "'a \<Rightarrow> 'a \<Rightarrow> 'x + 'a"
  mel_frequencies :: "int \<Rightarrow> int \<Rightarrow> 'x + 'a"

section \<open>The class \<^verbatim>\<open>Spectrogram\<close>\<close>

text \<open>
  The attributes of an instance. The eight products do not exist until
  \<^verbatim>\<open>_update_linear\<close> has bound them (\<open>None\<close>); reading a missing attribute raises
  \<^verbatim>\<open>AttributeError\<close>.
\<close>

record 'a engine =
  wav :: "'a obj"
  sr :: int
  win_length :: int
  hop_length :: int
  n_fft :: int
  n_mel :: int
  floor_db :: int
  spec :: "'a obj option"
  linear_db :: "'a obj option"
  t_axis :: "'a obj option"
  f_linear_axis :: "'a obj option"
  f_linear_axis_str :: "'a obj option"
  mel_db :: "'a obj option"
  f_mel_axis :: "'a obj option"
  f_mel_axis_str :: "'a obj option"

text \<open>The state a method runs in: the instance and the identity counter.\<close>

type_synonym 'a state = "'a engine \<times> nat"

datatype 'x outcome = Ok | Raised "'x error"

text \<open>Evaluating a right-hand side: library results, attribute reads, sequencing.\<close>

definition lib_call :: "'x + 'a \<Rightarrow> 'x error + 'a" where
  "lib_call r = (case r of Inl x \<Rightarrow> Inl (LibraryError x) | Inr v \<Rightarrow> Inr v)"

definition attr :: "'b option \<Rightarrow> 'x error + 'b" where
  "attr a = (case a of None \<Rightarrow> Inl AttributeError | Some v \<Rightarrow> Inr v)"

definition and_then :: "'e + 'b \<Rightarrow> ('b \<Rightarrow> 'e + 'c) \<Rightarrow> 'e + 'c" where
  "and_then r f = (case r of Inl e \<Rightarrow> Inl e | Inr v \<Rightarrow> f v)"

text \<open>
  One assignment statement \<^verbatim>\<open>self.attribute = rhs\<close>: when the right-hand side raises,
  the instance is as it was before the statement; otherwise the attribute is bound to a
  new object.
\<close>

definition assign ::
  "('a engine \<Rightarrow> 'x error + 'a) \<Rightarrow> ('a obj \<Rightarrow> 'a engine \<Rightarrow> 'a engine) \<Rightarrow>
   'a state \<Rightarrow> 'x outcome \<times> 'a state" where
  "assign rhs bind_to s =
     (case rhs (fst s) of
        Inl err \<Rightarrow> (Raised err, s)
      | Inr v \<Rightarrow> (Ok, (bind_to (Obj (snd s) v) (fst s), Suc (snd s))))"

text \<open>Statements in sequence: the first exception ends the block, keeping what was done.\<close>

fun block :: "('s \<Rightarrow> 'x outcome \<times> 's) list \<Rightarrow> 's \<Rightarrow> 'x outcome \<times> 's" where
  "block [] s = (Ok, s)"
| "block (stmt # rest) s =
     (case stmt s of
        (Ok, s') \<Rightarrow> block rest s'
      | (Raised err, s') \<Rightarrow> (Raised err, s'))"

text \<open>
  \<^verbatim>\<open>_amp_to_db\<close>:
  \<^verbatim>\<open>librosa.amplitude_to_db(amp, amin=10**(self._floor_db/20), top_db=-self._floor_db)\<close>;
  the library receives the exponent of \<open>amin\<close> and \<open>top_db\<close>.
\<close>

definition amp_to_db :: "('a, 'x) numlib \<Rightarrow> 'a engine \<Rightarrow> 'a \<Rightarrow> 'x error + 'a" where
  "amp_to_db lib e amp =
     lib_call (amplitude_to_db lib amp (of_int (floor_db e) / 20) (- floor_db e))"

text \<open>\<^verbatim>\<open>_update_mel\<close>, statement by statement.\<close>

definition mel_rhs :: "('a, 'x) numlib \<Rightarrow> 'a engine \<Rightarrow> 'x error + 'a" where
  "mel_rhs lib e =
     and_then (lib_call (mel_filter lib (sr e) (n_fft e) (n_mel e))) (\<lambda>fb.
     and_then (attr (spec e)) (\<lambda>sp.
     and_then (lib_call (matmul lib fb (val sp))) (\<lambda>m.
     amp_to_db lib e m)))"

definition f_mel_axis_rhs :: "('a, 'x) numlib \<Rightarrow> 'a engine \<Rightarrow> 'x error + 'a" where
  "f_mel_axis_rhs lib e = lib_call (mel_frequencies lib (n_mel e) (sr e div 2))"

definition f_mel_axis_str_rhs :: "('a, 'x) numlib \<Rightarrow> 'a engine \<Rightarrow> 'x error + 'a" where
  "f_mel_axis_str_rhs lib e =
     and_then (attr (f_mel_axis e)) (\<lambda>f.
     and_then (attr (t_axis e)) (\<lambda>t.
     lib_call (freq_expr_tile lib (val f) (val t))))"

definition update_mel :: "('a, 'x) numlib \<Rightarrow> 'a state \<Rightarrow> 'x outcome \<times> 'a state" where
  "update_mel lib =
     block
      [assign (mel_rhs lib) (\<lambda>a e. e\<lparr>mel_db := Some a\<rparr>),
       assign (f_mel_axis_rhs lib) (\<lambda>a e. e\<lparr>f_mel_axis := Some a\<rparr>),
       assign (f_mel_axis_str_rhs lib) (\<lambda>a e. e\<lparr>f_mel_axis_str := Some a\<rparr>)]"

text \<open>
  \<^verbatim>\<open>_update_linear\<close>. In the first statement the STFT is called before the
  normalisation factor \<^verbatim>\<open>1024 / self._win_length * self._sr / 48000\<close> is evaluated, whose
  first division raises on a zero window length.
\<close>

definition spec_rhs :: "('a, 'x) numlib \<Rightarrow> 'a engine \<Rightarrow> 'x error + 'a" where
  "spec_rhs lib e =
     and_then (lib_call (stft lib (val (wav e)) (n_fft e) (hop_length e) (win_length e))) (\<lambda>S.
     if win_length e = 0 then Inl ZeroDivisionError
     else Inr (times lib (np_abs lib S)
                 (1024 / of_int (win_length e) * of_int (sr e) / 48000)))"

definition linear_rhs :: "('a, 'x) numlib \<Rightarrow> 'a engine \<Rightarrow> 'x error + 'a" where
  "linear_rhs lib e = and_then (attr (spec e)) (\<lambda>sp. amp_to_db lib e (val sp))"

definition t_axis_rhs :: "('a, 'x) numlib \<Rightarrow> 'a engine \<Rightarrow> 'x error + 'a" where
  "t_axis_rhs lib e =
     and_then (attr (spec e)) (\<lambda>sp.
     lib_call (frame_times lib (val sp) (hop_length e) (sr e)))"

definition f_linear_axis_rhs :: "('a, 'x) numlib \<Rightarrow> 'a engine \<Rightarrow> 'x error + 'a" where
  "f_linear_axis_rhs lib e = lib_call (linspace lib 0 (sr e div 2) (n_fft e div 2 + 1))"

definition f_linear_axis_str_rhs :: "('a, 'x) numlib \<Rightarrow> 'a engine \<Rightarrow> 'x error + 'a" where
  "f_linear_axis_str_rhs lib e =
     and_then (attr (f_linear_axis e)) (\<lambda>f.
     and_then (attr (t_axis e)) (\<lambda>t.
     lib_call (freq_expr_tile lib (val f) (val t))))"

definition update_linear :: "('a, 'x) numlib \<Rightarrow> 'a state \<Rightarrow> 'x outcome \<times> 'a state" where
  "update_linear lib =
     block
      [assign (spec_rhs lib) (\<lambda>a e. e\<lparr>spec := Some a\<rparr>),
       assign (linear_rhs lib) (\<lambda>a e. e\<lparr>linear_db := Some a\<rparr>),
       assign (t_axis_rhs lib) (\<lambda>a e. e\<lparr>t_axis := Some a\<rparr>),
       assign (f_linear_axis_rhs lib) (\<lambda>a e. e\<lparr>f_linear_axis := Some a\<rparr>),
       assign (f_linear_axis_str_rhs lib) (\<lambda>a e. e\<lparr>f_linear_axis_str := Some a\<rparr>),
       update_mel lib]"

text \<open>
  \<^verbatim>\<open>__init__\<close>. A waveform with more than one dimension is replaced by its channel
  mean, a new array. The instance exists for the caller only if \<^verbatim>\<open>_update_linear\<close>
  returns; otherwise the exception leaves the constructor.
\<close>

definition init ::
  "('a, 'x) numlib \<Rightarrow> 'a obj \<Rightarrow> int \<Rightarrow> rat \<Rightarrow> rat \<Rightarrow> int \<Rightarrow> nat \<Rightarrow> 'x error + 'a state" where
  "init lib w sr0 win_ms overlap n_mel0 c =
     (let mono = (if 1 < ndim lib (val w) then (Obj c (mean_axis1 lib (val w)), Suc c) else (w, c));
          L = win_length_of sr0 win_ms
      in and_then (round_div L overlap) (\<lambda>h.
         and_then (n_fft_of L) (\<lambda>n.
         case update_linear lib
                (\<lparr>wav = fst mono, sr = sr0, win_length = L, hop_length = h, n_fft = n,
                  n_mel = n_mel0, floor_db = - 120,
                  spec = None, linear_db = None, t_axis = None, f_linear_axis = None,
                  f_linear_axis_str = None, mel_db = None, f_mel_axis = None,
                  f_mel_axis_str = None\<rparr>, snd mono) of
           (Ok, s) \<Rightarrow> Inr s
         | (Raised err, s) \<Rightarrow> Inl err)))"

text \<open>The property \<^verbatim>\<open>overlap\<close>: getter and setter.\<close>

definition overlap_get :: "'a engine \<Rightarrow> 'x error + int" where
  "overlap_get e = round_div (win_length e) (of_int (hop_length e))"

definition overlap_set ::
  "('a, 'x) numlib \<Rightarrow> rat \<Rightarrow> 'a state \<Rightarrow> 'x outcome \<times> 'a state" where
  "overlap_set lib overlap s =
     (case round_div (win_length (fst s)) overlap of
        Inl err \<Rightarrow> (Raised err, s)
      | Inr hop \<Rightarrow>
          if hop = hop_length (fst s) then (Ok, s)
          else update_linear lib ((fst s)\<lparr>hop_length := hop\<rparr>, snd s))"

text \<open>The property \<^verbatim>\<open>win_ms\<close>: getter and setter.\<close>

definition win_ms_get :: "'a engine \<Rightarrow> 'x error + int" where
  "win_ms_get e = round_div (win_length e * 1000) (of_int (sr e))"

definition win_ms_set ::
  "('a, 'x) numlib \<Rightarrow> rat \<Rightarrow> 'a state \<Rightarrow> 'x outcome \<times> 'a state" where
  "win_ms_set lib win_ms s =
     (let L = win_length_of (sr (fst s)) win_ms
      in if L = win_length (fst s) then (Ok, s)
         else case n_fft_of L of
                Inl err \<Rightarrow> (Raised err, ((fst s)\<lparr>win_length := L\<rparr>, snd s))
              | Inr n \<Rightarrow> update_linear lib ((fst s)\<lparr>win_length := L, n_fft := n\<rparr>, snd s))"

text \<open>The property \<^verbatim>\<open>n_mel\<close>: the setter.\<close>

definition n_mel_set ::
  "('a, 'x) numlib \<Rightarrow> int \<Rightarrow> 'a state \<Rightarrow> 'x outcome \<times> 'a state" where
  "n_mel_set lib n s =
     (if n = n_mel (fst s) then (Ok, s)
      else update_mel lib ((fst s)\<lparr>n_mel := n\<rparr>, snd s))"

text \<open>
  The instances a program can hold: what a constructor call returned, after any number
  of setter calls, whether they returned or raised (a caller may catch the exception and
  keep the instance). Other allocations may advance the counter in between.
\<close>

inductive constructed :: "('a, 'x) numlib \<Rightarrow> 'a state \<Rightarrow> bool" for lib where
  by_init: "init lib w sr0 win_ms overlap n_mel0 c = Inr s \<Longrightarrow> constructed lib s"
| by_overlap_set: "constructed lib s \<Longrightarrow> overlap_set lib v s = (r, s') \<Longrightarrow> constructed lib s'"
| by_win_ms_set: "constructed lib s \<Longrightarrow> win_ms_set lib w s = (r, s') \<Longrightarrow> constructed lib s'"
| by_n_mel_set: "constructed lib s \<Longrightarrow> n_mel_set lib n s = (r, s') \<Longrightarrow> constructed lib s'"
| by_alloc: "constructed lib (e, c) \<Longrightarrow> c \<le> c' \<Longrightarrow> constructed lib (e, c')"

text \<open>The parameters of an instance, and the products of the linear stage.\<close>

definition params :: "'a engine \<Rightarrow> 'a obj \<times> int \<times> int \<times> int \<times> int \<times> int \<times> int" where
  "params e = (wav e, sr e, win_length e, hop_length e, n_fft e, n_mel e, floor_db e)"

definition linear_products ::
  "'a engine \<Rightarrow> 'a obj option \<times> 'a obj option \<times> 'a obj option \<times> 'a obj option \<times> 'a obj option" where
  "linear_products e = (spec e, linear_db e, t_axis e, f_linear_axis e, f_linear_axis_str e)"

definition mel_products ::
  "'a engine \<Rightarrow> 'a obj option \<times> 'a obj option \<times> 'a obj option" where
  "mel_products e = (mel_db e, f_mel_axis e, f_mel_axis_str e)"

text \<open>A statement leaves an observation \<open>f\<close> of the instance alone.\<close>

definition keeps :: "('a engine \<Rightarrow> 'b) \<Rightarrow> ('a state \<Rightarrow> 'x outcome \<times> 'a state) \<Rightarrow> bool" where
  "keeps f stmt = (\<forall>s. f (fst (snd (stmt s))) = f (fst s))"

section \<open>A small library instance for concrete runs\<close>

text \<open>
  Arrays are lists of integers. \<open>toy_lib\<close> rejects what librosa rejects in its framing
  step (a hop or transform size below one, no samples); \<open>lenient_lib\<close> accepts everything.
  \<open>LibsndfileError\<close> stands for what \<^verbatim>\<open>sf.read\<close> raises on bytes that are not audio.
\<close>

datatype lib_exc = ParameterError | LibsndfileError

definition lenient_lib :: "(int list, lib_exc) numlib" where
  "lenient_lib =
     \<lparr>ndim = (\<lambda>a. 1), mean_axis1 = (\<lambda>a. a),
      stft = (\<lambda>w n h l. Inr (n # h # l # w)),
      np_abs = map abs,
      times = (\<lambda>a q. a),
      amplitude_to_db = (\<lambda>a q t. Inr (t # a)),
      frame_times = (\<lambda>a h r. Inr [h, r]),
      linspace = (\<lambda>a b n. Inr [a, b, n]),
      freq_expr_tile = (\<lambda>f t. Inr (f @ t)),
      mel_filter = (\<lambda>r n m. Inr [r, n, m]),
      matmul = (\<lambda>a b. Inr (a @ b)),
      mel_frequencies = (\<lambda>m f. Inr [m, f])\<rparr>"

definition toy_lib :: "(int list, lib_exc) numlib" where
  "toy_lib =
     lenient_lib\<lparr>stft := (\<lambda>w n h l. if h < 1 \<or> n < 1 \<or> w = [] then Inl ParameterError
                                   else Inr (n # h # l # w))\<rparr>"

text \<open>A constructed instance for concrete runs: 48 kHz, 40 ms window, overlap 4.\<close>

definition demo :: "int list state" where
  "demo = projr (init toy_lib (Obj 0 [3, - 1, 2]) 48000 40 4 128 1)"

text \<open>Another one: 8 kHz, 5 ms window (40 samples), overlap 4 (hop 10).\<close>

definition demo_8k :: "int list state" where
  "demo_8k = projr (init toy_lib (Obj 0 [3, - 1, 2]) 8000 5 4 128 1)"

section \<open>The batch dispatcher of \<^verbatim>\<open>main.py\<close>\<close>

text \<open>
  The calls into base64, soundfile and numpy made by \<^verbatim>\<open>parse_contents\<close> and
  \<^verbatim>\<open>update_graphs\<close>, again as parameters: \<open>'b\<close> is the type of byte strings.
\<close>

record ('a, 'b, 'x) iolib =
  b64decode :: "string \<Rightarrow> 'x + 'b"
  sf_read :: "'b \<Rightarrow> 'x + 'a \<times> int"
  sample_times :: "'a \<Rightarrow> int \<Rightarrow> 'a"
  abs_max :: "'a \<Rightarrow> 'x + rat"

text \<open>\<^verbatim>\<open>str.split(sep)\<close> for a one-character separator.\<close>

fun split_on :: "char \<Rightarrow> string \<Rightarrow> string list" where
  "split_on d [] = [[]]"
| "split_on d (x # xs) =
     (if x = d then [] # split_on d xs
      else (case split_on d xs of
              p # ps \<Rightarrow> (x # p) # ps
            | [] \<Rightarrow> [[x]]))"

text \<open>\<^verbatim>\<open>f'{n:d}'\<close> for an integer.\<close>

fun dec :: "nat \<Rightarrow> string" where
  "dec n = (if n < 10 then [char_of (48 + n)] else dec (n div 10) @ [char_of (48 + n mod 10)])"

definition format_d :: "int \<Rightarrow> string" where
  "format_d i = (if i < 0 then CHR ''-'' # dec (nat (- i)) else dec (nat i))"

text \<open>The plot objects a job returns, and the placeholder \<^verbatim>\<open>html.Div\<close> it returns instead
  when the file cannot be read.\<close>

record 'a heatmap =
  hm_x :: "'a obj option"
  hm_y :: "'a obj option"
  hm_z :: "'a obj option"
  hm_customdata :: "'a obj option"
  hm_name :: string

record 'a scatter =
  sc_x :: 'a
  sc_y :: "'a obj"
  sc_name :: string

datatype 'a job_result = Placeholder | Loaded "'a engine" "'a heatmap" "'a scatter"

text \<open>\<^verbatim>\<open>limits=n_threads if n_threads > 0 else None\<close>\<close>

definition blas_limit :: "int \<Rightarrow> int option" where
  "blas_limit n_threads = (if 0 < n_threads then Some n_threads else None)"

text \<open>
  \<^verbatim>\<open>parse_contents\<close>. Splitting and base64 decoding are outside the \<^verbatim>\<open>try\<close>; any
  exception of \<^verbatim>\<open>sf.read\<close> is caught and turned into the placeholder. The constructor
  and the plot objects are built inside \<^verbatim>\<open>with threadpool_limits(...)\<close>: \<open>libs\<close> gives
  the numeric library as it runs under a thread limit. The array \<^verbatim>\<open>sf.read\<close> returns is
  a new object.
\<close>

definition parse_contents ::
  "('a, 'b, 'x) iolib \<Rightarrow> (int option \<Rightarrow> ('a, 'x) numlib) \<Rightarrow>
   string \<Rightarrow> string \<Rightarrow> rat \<Rightarrow> rat \<Rightarrow> int \<Rightarrow> string \<Rightarrow> int \<Rightarrow> nat \<Rightarrow>
   'x error + 'a job_result \<times> nat" where
  "parse_contents io libs contents fname win_ms overlap n_mel0 freq_scale n_threads c =
     (case split_on CHR '','' contents of
        [u, content_string] \<Rightarrow>
          and_then (lib_call (b64decode io content_string)) (\<lambda>decoded.
          case sf_read io decoded of
            Inl e \<Rightarrow> Inr (Placeholder, c)
          | Inr (w, sr0) \<Rightarrow>
              and_then (init (libs (blas_limit n_threads)) (Obj c w) sr0 win_ms overlap n_mel0
                          (Suc c)) (\<lambda>(e, c').
              Inr (Loaded e
                     \<lparr>hm_x = t_axis e,
                      hm_y = (if freq_scale = ''mel'' then None else f_linear_axis e),
                      hm_z = (if freq_scale = ''mel'' then mel_db e else linear_db e),
                      hm_customdata = (if freq_scale = ''mel'' then f_mel_axis_str e
                                       else f_linear_axis_str e),
                      hm_name = fname\<rparr>
                     \<lparr>sc_x = sample_times io (val (wav e)) sr0, sc_y = wav e,
                      sc_name = fname\<rparr>, c')))
      | _ \<Rightarrow> Inl ValueError)"

text \<open>The argument tuple of one job.\<close>

record job =
  j_contents :: string
  j_fname :: string
  j_win_ms :: rat
  j_overlap :: rat
  j_n_mel :: int
  j_freq_scale :: string
  j_n_threads :: int

text \<open>
  Lines 175 to 178 of \<^verbatim>\<open>update_graphs\<close>: the thread budget
  \<^verbatim>\<open>max(2, mp.cpu_count() // len(contents_list))\<close> and the list of argument tuples handed
  to \<^verbatim>\<open>pool.starmap_async\<close>.
\<close>

definition n_threads_of :: "int \<Rightarrow> 'c list \<Rightarrow> int" where
  "n_threads_of cpu_count contents_list = max 2 (cpu_count div int (length contents_list))"

definition batch_jobs ::
  "int \<Rightarrow> string list \<Rightarrow> string list \<Rightarrow> rat \<Rightarrow> rat \<Rightarrow> int \<Rightarrow> string \<Rightarrow> job list" where
  "batch_jobs cpu_count contents_list filenames win_ms overlap n_mel0 freq_scale =
     (let n_threads = n_threads_of cpu_count contents_list
      in map (\<lambda>(c, f). \<lparr>j_contents = c, j_fname = f, j_win_ms = win_ms, j_overlap = overlap,
                         j_n_mel = n_mel0, j_freq_scale = freq_scale, j_n_threads = n_threads\<rparr>)
             (zip contents_list filenames))"

definition run_job ::
  "('a, 'b, 'x) iolib \<Rightarrow> (int option \<Rightarrow> ('a, 'x) numlib) \<Rightarrow> job \<Rightarrow> nat \<Rightarrow>
   'x error + 'a job_result \<times> nat" where
  "run_job io libs j =
     parse_contents io libs (j_contents j) (j_fname j) (j_win_ms j) (j_overlap j) (j_n_mel j)
       (j_freq_scale j) (j_n_threads j)"

text \<open>
  \<^verbatim>\<open>pool.starmap_async(...)\<close> followed by \<^verbatim>\<open>result.get()\<close>, as far as a function of the
  jobs can say it: the results in the order of the argument list, or the exception of a
  job that raised (of the first such job here; in the pool, which one is a matter of
  timing). The worker processes and their scheduling are not modelled.
\<close>

fun starmap ::
  "('j \<Rightarrow> nat \<Rightarrow> 'e + 'r \<times> nat) \<Rightarrow> 'j list \<Rightarrow> nat \<Rightarrow> 'e + 'r list \<times> nat" where
  "starmap f [] c = Inr ([], c)"
| "starmap f (j # js) c =
     and_then (f j c) (\<lambda>(r, c').
     and_then (starmap f js c') (\<lambda>(rs, c'').
     Inr (r # rs, c'')))"

text \<open>
  The figure, as far as the callback fills it: one annotation per subplot title, the
  traces, and the amplitude that scales the waveform axes.
\<close>

record 'a figure =
  annotations :: "string list"
  traces :: "('a heatmap \<times> 'a scatter) list"
  max_amp :: rat

text \<open>
  The loop of lines 196 to 204. The target \<^verbatim>\<open>(spec, *plot)\<close> unpacks each result. A
  three-tuple gives the instance and the two plots. The placeholder is a Dash component;
  iterating one yields the ids of its children, of which a \<^verbatim>\<open>Div\<close> holding only a string
  has none, so the unpacking raises \<^verbatim>\<open>ValueError\<close> (not enough values to unpack). The
  lists are appended to in place, so what was appended before an exception stays.
\<close>

record 'a loop_state =
  ls_annotations :: "string list"
  ls_max_amp :: rat
  ls_specs :: "'a engine list"
  ls_plots :: "('a heatmap \<times> 'a scatter) list"

fun collect ::
  "('a, 'b, 'x) iolib \<Rightarrow> (string \<times> 'a job_result) list \<Rightarrow> 'a loop_state \<Rightarrow>
   'x outcome \<times> 'a loop_state" where
  "collect io [] st = (Ok, st)"
| "collect io ((annotation, Placeholder) # rest) st = (Raised ValueError, st)"
| "collect io ((annotation, Loaded e hm sc) # rest) st =
     (let st1 = st\<lparr>ls_annotations :=
                     ls_annotations st @ [annotation @ '' (sr='' @ format_d (sr e) @ '' Hz)'']\<rparr>
      in case abs_max io (val (wav e)) of
           Inl x \<Rightarrow> (Raised (LibraryError x), st1)
         | Inr amp \<Rightarrow>
             collect io rest
               (st1\<lparr>ls_max_amp := (if ls_max_amp st1 < amp then amp else ls_max_amp st1),
                    ls_specs := ls_specs st1 @ [e],
                    ls_plots := ls_plots st1 @ [(hm, sc)]\<rparr>))"

text \<open>The module's globals \<^verbatim>\<open>specs\<close> and \<^verbatim>\<open>fig\<close>, and the identity counter.\<close>

record 'a app =
  specs :: "'a engine list"
  fig :: "'a figure option"
  next_id :: nat

text \<open>
  \<^verbatim>\<open>update_graphs\<close> for a callback triggered by the upload component, lines 162 to 219:
  an empty upload returns an empty figure at once; otherwise the batch is dispatched, the
  new figure is bound to \<^verbatim>\<open>fig\<close>, the results are awaited and collected, and
  \<^verbatim>\<open>round(max_amp, ndigits=1)\<close> is capped at one half. The annotations that the loop has
  not reached keep their title. (The loop of lines 221 to 237, which re-applies the
  parameters to every instance, follows in the source.)
\<close>

definition update_graphs_upload ::
  "('a, 'b, 'x) iolib \<Rightarrow> (int option \<Rightarrow> ('a, 'x) numlib) \<Rightarrow> int \<Rightarrow>
   string list \<Rightarrow> string \<Rightarrow> rat \<Rightarrow> rat \<Rightarrow> int \<Rightarrow> string list \<Rightarrow> 'a app \<Rightarrow>
   'x outcome \<times> 'a app" where
  "update_graphs_upload io libs cpu_count contents_list freq_scale win_ms overlap n_mel0
     filenames ap =
     (if contents_list = [] then (Ok, ap)
      else
        let jobs = batch_jobs cpu_count contents_list filenames win_ms overlap n_mel0 freq_scale;
            fig0 = \<lparr>annotations = filenames, traces = [], max_amp = 0\<rparr>
        in case starmap (run_job io libs) jobs (next_id ap) of
             Inl err \<Rightarrow> (Raised err, ap\<lparr>fig := Some fig0\<rparr>)
           | Inr (tup_list, c) \<Rightarrow>
               (case collect io (zip filenames tup_list)
                       \<lparr>ls_annotations = [], ls_max_amp = 0, ls_specs = [], ls_plots = []\<rparr> of
                  (Raised err, st) \<Rightarrow>
                    (Raised err,
                     ap\<lparr>specs := ls_specs st,
                        fig := Some (fig0\<lparr>annotations :=
                                 ls_annotations st @ drop (length (ls_annotations st)) filenames\<rparr>),
                        next_id := c\<rparr>)
                | (Ok, st) \<Rightarrow>
                    (Ok,
                     ap\<lparr>specs := ls_specs st,
                        fig := Some \<lparr>annotations =
                                 ls_annotations st @ drop (length (ls_annotations st)) filenames,
                               traces = ls_plots st,
                               max_amp = min (of_int (py_round (ls_max_amp st * 10)) / 10) (1 / 2)\<rparr>,
                        next_id := c\<rparr>)))"

text \<open>A toy decoder: the content \<open>''bad''\<close> is not audio, anything else is three samples
  at 48 kHz.\<close>

definition toy_io :: "(int list, string, lib_exc) iolib" where
  "toy_io =
     \<lparr>b64decode = (\<lambda>s. Inr s),
      sf_read = (\<lambda>b. if b = ''bad'' then Inl LibsndfileError else Inr ([3, - 1, 2], 48000)),
      sample_times = (\<lambda>a r. a),
      abs_max = (\<lambda>a. Inr 3)\<rparr>"

section \<open>Frame lemmas for the two recomputation stages\<close>

lemma keeps_assign: "(\<And>a e. f (bind_to a e) = f e) \<Longrightarrow> keeps f (assign rhs bind_to)"
  by (simp add: keeps_def assign_def split: sum.split)

lemma keepsD: "keeps f stmt \<Longrightarrow> stmt s = (r, s') \<Longrightarrow> f (fst s') = f (fst s)"
  unfolding keeps_def by (metis fst_conv snd_conv)

lemma keeps_block: "(\<And>stmt. stmt \<in> set stmts \<Longrightarrow> keeps f stmt) \<Longrightarrow> keeps f (block stmts)"
proof (induction stmts)
  case Nil
  show ?case by (simp add: keeps_def)
next
  case (Cons st rest)
  have st: "keeps f st" and rest: "keeps f (block rest)"
    using Cons by simp_all
  show ?case
    unfolding keeps_def
  proof
    fix s
    obtain r s1 where run: "st s = (r, s1)" by (cases "st s")
    have one: "f (fst s1) = f (fst s)"
      using keepsD[OF st run] .
    obtain r2 s2 where run2: "block rest s1 = (r2, s2)" by (cases "block rest s1")
    have two: "f (fst s2) = f (fst s1)"
      using keepsD[OF rest run2] .
    show "f (fst (snd (block (st # rest) s))) = f (fst s)"
    proof (cases r)
      case Ok
      then show ?thesis using run one run2 two by simp
    next
      case (Raised err)
      then show ?thesis using run one by simp
    qed
  qed
qed

lemma update_mel_params: "keeps params (update_mel lib)"
  unfolding update_mel_def
  by (rule keeps_block) (auto intro!: keeps_assign simp: params_def)


lemma update_linear_params: "keeps params (update_linear lib)"
  unfolding update_linear_def
  by (rule keeps_block) (auto intro!: keeps_assign update_mel_params simp: params_def)

lemma block_Nil_Ok: "block [] s = (r, s') \<Longrightarrow> r = Ok \<and> s' = s"
  by auto

lemma block_assign_Ok:
  "block (assign rhs bind_to # rest) (e, c) = (Ok, s'') \<Longrightarrow>
     \<exists>v. rhs e = Inr v \<and> block rest (bind_to (Obj c v) e, Suc c) = (Ok, s'')"
  by (auto simp: assign_def split: sum.splits)

lemma block_last_Ok: "block [stmt] s = (Ok, s') \<Longrightarrow> stmt s = (Ok, s')"
  by (cases "stmt s") (auto split: outcome.splits)

lemma update_mel_Ok:
  assumes "update_mel lib (e, c) = (Ok, (e', c'))"
  shows "\<exists>m f l. mel_products e' = (Some (Obj c m), Some (Obj (c + 1) f), Some (Obj (c + 2) l))
           \<and> mel_rhs lib e = Inr m \<and> f_mel_axis_rhs lib e = Inr f \<and> c' = c + 3
           \<and> e' = e\<lparr>mel_db := Some (Obj c m), f_mel_axis := Some (Obj (c + 1) f),
                     f_mel_axis_str := Some (Obj (c + 2) l)\<rparr>"
  using assms unfolding update_mel_def
  by (auto simp del: block.simps dest!: block_assign_Ok block_Nil_Ok
           simp: mel_products_def f_mel_axis_rhs_def)

lemma update_linear_Ok:
  assumes "update_linear lib (e, c) = (Ok, (e', c'))"
  shows "\<exists>a0 a1 a2 a3 a4 a5 a6 a7.
           linear_products e' =
             (Some (Obj c a0), Some (Obj (c + 1) a1), Some (Obj (c + 2) a2),
              Some (Obj (c + 3) a3), Some (Obj (c + 4) a4))
           \<and> mel_products e' = (Some (Obj (c + 5) a5), Some (Obj (c + 6) a6), Some (Obj (c + 7) a7))
           \<and> c' = c + 8"
  using assms unfolding update_linear_def
  by (auto simp del: block.simps dest!: block_assign_Ok block_last_Ok update_mel_Ok
           simp: mel_products_def linear_products_def)

lemma two_power_ceillog2_least:
  assumes "0 < L"
  shows "L \<le> 2 ^ ceillog2 (nat L) \<and> (\<forall>j. L \<le> 2 ^ j \<longrightarrow> (2::int) ^ ceillog2 (nat L) \<le> 2 ^ j)"
proof
  have "nat L \<le> 2 ^ ceillog2 (nat L)" by (rule le_two_power_ceillog2)
  then show "L \<le> 2 ^ ceillog2 (nat L)"
    by (metis nat_le_iff of_nat_numeral of_nat_power)
  show "\<forall>j. L \<le> 2 ^ j \<longrightarrow> (2::int) ^ ceillog2 (nat L) \<le> 2 ^ j"
  proof (intro allI impI)
    fix j assume "L \<le> 2 ^ j"
    then have "nat L \<le> 2 ^ j"
      by (metis nat_le_iff of_nat_numeral of_nat_power)
    then have "ceillog2 (nat L) \<le> j"
      using assms by (simp add: ceillog2_le_iff)
    then show "(2::int) ^ ceillog2 (nat L) \<le> 2 ^ j"
      by (simp add: power_increasing)
  qed
qed


lemma block_assign_OkE:
  assumes "block (assign rhs bind_to # rest) (e, c) = (Ok, s'')"
  obtains v where "rhs e = Inr v"
    and "block rest (bind_to (Obj c v) e, Suc c) = (Ok, s'')"
  using block_assign_Ok[OF assms] by (elim exE conjE)

text \<open>
  What \<^verbatim>\<open>_update_linear\<close> has computed when it returns: every product is the result of
  its library call on the parameters of the instance and on the products bound just
  before it, and the instance is the old one with the eight products rebound.
\<close>

lemma update_linear_Ok_pinned:
  fixes lib :: "('a, 'x) numlib"
  assumes "update_linear lib (e, c) = (Ok, s')"
  shows "\<exists>S a0 a1 a2 a3 a4 fb m a5 a6 a7.
           stft lib (val (wav e)) (n_fft e) (hop_length e) (win_length e) = Inr S
         \<and> win_length e \<noteq> 0
         \<and> a0 = times lib (np_abs lib S) (1024 / of_int (win_length e) * of_int (sr e) / 48000)
         \<and> amplitude_to_db lib a0 (of_int (floor_db e) / 20) (- floor_db e) = Inr a1
         \<and> frame_times lib a0 (hop_length e) (sr e) = Inr a2
         \<and> linspace lib 0 (sr e div 2) (n_fft e div 2 + 1) = Inr a3
         \<and> freq_expr_tile lib a3 a2 = Inr a4
         \<and> mel_filter lib (sr e) (n_fft e) (n_mel e) = Inr fb
         \<and> matmul lib fb a0 = Inr m
         \<and> amplitude_to_db lib m (of_int (floor_db e) / 20) (- floor_db e) = Inr a5
         \<and> mel_frequencies lib (n_mel e) (sr e div 2) = Inr a6
         \<and> freq_expr_tile lib a6 a2 = Inr a7
         \<and> s' = (e\<lparr>spec := Some (Obj c a0), linear_db := Some (Obj (c + 1) a1),
                     t_axis := Some (Obj (c + 2) a2), f_linear_axis := Some (Obj (c + 3) a3),
                     f_linear_axis_str := Some (Obj (c + 4) a4),
                     mel_db := Some (Obj (c + 5) a5), f_mel_axis := Some (Obj (c + 6) a6),
                     f_mel_axis_str := Some (Obj (c + 7) a7)\<rparr>, c + 8)"
proof -
  obtain a0 where a0: "spec_rhs lib e = Inr a0"
    and r1: "block
      [assign (linear_rhs lib) (\<lambda>a e. e\<lparr>linear_db := Some a\<rparr>),
       assign (t_axis_rhs lib) (\<lambda>a e. e\<lparr>t_axis := Some a\<rparr>),
       assign (f_linear_axis_rhs lib) (\<lambda>a e. e\<lparr>f_linear_axis := Some a\<rparr>),
       assign (f_linear_axis_str_rhs lib) (\<lambda>a e. e\<lparr>f_linear_axis_str := Some a\<rparr>),
       update_mel lib] (e\<lparr>spec := Some (Obj c a0)\<rparr>, Suc c) = (Ok, s')"
    using assms[unfolded update_linear_def] by (rule block_assign_OkE)
  let ?e1 = "e\<lparr>spec := Some (Obj c a0)\<rparr>"
  obtain a1 where a1: "linear_rhs lib ?e1 = Inr a1"
    and r2: "block
      [assign (t_axis_rhs lib) (\<lambda>a e. e\<lparr>t_axis := Some a\<rparr>),
       assign (f_linear_axis_rhs lib) (\<lambda>a e. e\<lparr>f_linear_axis := Some a\<rparr>),
       assign (f_linear_axis_str_rhs lib) (\<lambda>a e. e\<lparr>f_linear_axis_str := Some a\<rparr>),
       update_mel lib] (?e1\<lparr>linear_db := Some (Obj (Suc c) a1)\<rparr>, Suc (Suc c)) = (Ok, s')"
    using r1 by (rule block_assign_OkE)
  let ?e2 = "?e1\<lparr>linear_db := Some (Obj (Suc c) a1)\<rparr>"
  obtain a2 where a2: "t_axis_rhs lib ?e2 = Inr a2"
    and r3: "block
      [assign (f_linear_axis_rhs lib) (\<lambda>a e. e\<lparr>f_linear_axis := Some a\<rparr>),
       assign (f_linear_axis_str_rhs lib) (\<lambda>a e. e\<lparr>f_linear_axis_str := Some a\<rparr>),
       update_mel lib] (?e2\<lparr>t_axis := Some (Obj (Suc (Suc c)) a2)\<rparr>, Suc (Suc (Suc c))) = (Ok, s')"
    using r2 by (rule block_assign_OkE)
  let ?e3 = "?e2\<lparr>t_axis := Some (Obj (Suc (Suc c)) a2)\<rparr>"
  obtain a3 where a3: "f_linear_axis_rhs lib ?e3 = Inr a3"
    and r4: "block
      [assign (f_linear_axis_str_rhs lib) (\<lambda>a e. e\<lparr>f_linear_axis_str := Some a\<rparr>),
       update_mel lib]
        (?e3\<lparr>f_linear_axis := Some (Obj (Suc (Suc (Suc c))) a3)\<rparr>, Suc (Suc (Suc (Suc c)))) =
        (Ok, s')"
    using r3 by (rule block_assign_OkE)
  let ?e4 = "?e3\<lparr>f_linear_axis := Some (Obj (Suc (Suc (Suc c))) a3)\<rparr>"
  obtain a4 where a4: "f_linear_axis_str_rhs lib ?e4 = Inr a4"
    and r5: "block [update_mel lib]
        (?e4\<lparr>f_linear_axis_str := Some (Obj (Suc (Suc (Suc (Suc c)))) a4)\<rparr>,
         Suc (Suc (Suc (Suc (Suc c))))) = (Ok, s')"
    using r4 by (rule block_assign_OkE)
  let ?e5 = "?e4\<lparr>f_linear_axis_str := Some (Obj (Suc (Suc (Suc (Suc c)))) a4)\<rparr>"
  let ?c5 = "Suc (Suc (Suc (Suc (Suc c))))"
  have r6: "update_mel lib (?e5, ?c5) = (Ok, s')"
    using block_last_Ok[OF r5] .
  obtain a5 where a5: "mel_rhs lib ?e5 = Inr a5"
    and r7: "block
      [assign (f_mel_axis_rhs lib) (\<lambda>a e. e\<lparr>f_mel_axis := Some a\<rparr>),
       assign (f_mel_axis_str_rhs lib) (\<lambda>a e. e\<lparr>f_mel_axis_str := Some a\<rparr>)]
        (?e5\<lparr>mel_db := Some (Obj ?c5 a5)\<rparr>, Suc ?c5) = (Ok, s')"
    using r6[unfolded update_mel_def] by (rule block_assign_OkE)
  let ?e6 = "?e5\<lparr>mel_db := Some (Obj ?c5 a5)\<rparr>"
  obtain a6 where a6: "f_mel_axis_rhs lib ?e6 = Inr a6"
    and r8: "block
      [assign (f_mel_axis_str_rhs lib) (\<lambda>a e. e\<lparr>f_mel_axis_str := Some a\<rparr>)]
        (?e6\<lparr>f_mel_axis := Some (Obj (Suc ?c5) a6)\<rparr>, Suc (Suc ?c5)) = (Ok, s')"
    using r7 by (rule block_assign_OkE)
  let ?e7 = "?e6\<lparr>f_mel_axis := Some (Obj (Suc ?c5) a6)\<rparr>"
  obtain a7 where a7: "f_mel_axis_str_rhs lib ?e7 = Inr a7"
    and r9: "block [] (?e7\<lparr>f_mel_axis_str := Some (Obj (Suc (Suc ?c5)) a7)\<rparr>, Suc (Suc (Suc ?c5))) =
               (Ok :: 'x outcome, s')"
    using r8 by (rule block_assign_OkE)
  have fin: "s' = (?e7\<lparr>f_mel_axis_str := Some (Obj (Suc (Suc ?c5)) a7)\<rparr>, Suc (Suc (Suc ?c5)))"
    using r9 by simp
  obtain S where S: "stft lib (val (wav e)) (n_fft e) (hop_length e) (win_length e) = Inr S"
    and w: "win_length e \<noteq> 0"
    and m0: "a0 = times lib (np_abs lib S) (1024 / of_int (win_length e) * of_int (sr e) / 48000)"
    using a0 by (auto simp: spec_rhs_def and_then_def lib_call_def split: sum.splits if_splits)
  have p1: "amplitude_to_db lib a0 (of_int (floor_db e) / 20) (- floor_db e) = Inr a1"
    using a1 by (auto simp: linear_rhs_def amp_to_db_def and_then_def attr_def lib_call_def
                      split: sum.splits)
  have p2: "frame_times lib a0 (hop_length e) (sr e) = Inr a2"
    using a2 by (auto simp: t_axis_rhs_def and_then_def attr_def lib_call_def split: sum.splits)
  have p3: "linspace lib 0 (sr e div 2) (n_fft e div 2 + 1) = Inr a3"
    using a3 by (auto simp: f_linear_axis_rhs_def lib_call_def split: sum.splits)
  have p4: "freq_expr_tile lib a3 a2 = Inr a4"
    using a4 by (auto simp: f_linear_axis_str_rhs_def and_then_def attr_def lib_call_def
                      split: sum.splits)
  obtain fb m where p5: "mel_filter lib (sr e) (n_fft e) (n_mel e) = Inr fb"
    and p6: "matmul lib fb a0 = Inr m"
    and p7: "amplitude_to_db lib m (of_int (floor_db e) / 20) (- floor_db e) = Inr a5"
    using a5 by (auto simp: mel_rhs_def amp_to_db_def and_then_def attr_def lib_call_def
                      split: sum.splits)
  have p8: "mel_frequencies lib (n_mel e) (sr e div 2) = Inr a6"
    using a6 by (auto simp: f_mel_axis_rhs_def lib_call_def split: sum.splits)
  have p9: "freq_expr_tile lib a6 a2 = Inr a7"
    using a7 by (auto simp: f_mel_axis_str_rhs_def and_then_def attr_def lib_call_def
                      split: sum.splits)
  have s': "s' = (e\<lparr>spec := Some (Obj c a0), linear_db := Some (Obj (c + 1) a1),
                     t_axis := Some (Obj (c + 2) a2), f_linear_axis := Some (Obj (c + 3) a3),
                     f_linear_axis_str := Some (Obj (c + 4) a4),
                     mel_db := Some (Obj (c + 5) a5), f_mel_axis := Some (Obj (c + 6) a6),
                     f_mel_axis_str := Some (Obj (c + 7) a7)\<rparr>, c + 8)"
    unfolding fin by simp
  show ?thesis
    by (intro exI conjI) (rule S w m0 p1 p2 p3 p4 p5 p6 p7 p8 p9 s')+
qed

section \<open>Evaluating concrete runs\<close>

lemma py_round_of_int: "py_round (of_int n) = n"
  by (simp add: py_round_def)

lemma py_round_numeral: "py_round (numeral k) = numeral k"
  using py_round_of_int[of "numeral k"] by simp

lemma py_round_zero: "py_round 0 = 0"
  using py_round_of_int[of 0] by simp

lemmas run_defs =
  init_def update_linear_def update_mel_def assign_def and_then_def lib_call_def attr_def
  spec_rhs_def linear_rhs_def t_axis_rhs_def f_linear_axis_rhs_def f_linear_axis_str_rhs_def
  mel_rhs_def f_mel_axis_rhs_def f_mel_axis_str_rhs_def amp_to_db_def round_div_def n_fft_of_def
  overlap_set_def overlap_get_def win_ms_set_def n_mel_set_def
  toy_lib_def lenient_lib_def

lemma win_length_48000_40: "win_length_of 48000 40 = 1920"
  by (simp add: win_length_of_def py_round_numeral)

lemma win_length_8000_5: "win_length_of 8000 5 = 40"
  by (simp add: win_length_of_def py_round_numeral)

lemma ceillog2_1920: "ceillog2 1920 = 11"
  by (rule ceillog2_eqI) simp_all

lemma ceillog2_40: "ceillog2 40 = 6"
  by (rule ceillog2_eqI) simp_all

lemma py_round_5_2: "py_round (5 / 2) = 2"
  by code_simp

lemma demo_eq:
  "demo =
    (\<lparr>wav = Obj 0 [3, - 1, 2], sr = 48000, win_length = 1920, hop_length = 480,
      n_fft = 2048, n_mel = 128, floor_db = - 120,
      spec = Some (Obj 1 [2048, 480, 1920, 3, 1, 2]),
      linear_db = Some (Obj 2 [120, 2048, 480, 1920, 3, 1, 2]),
      t_axis = Some (Obj 3 [480, 48000]),
      f_linear_axis = Some (Obj 4 [0, 24000, 1025]),
      f_linear_axis_str = Some (Obj 5 [0, 24000, 1025, 480, 48000]),
      mel_db = Some (Obj 6 [120, 48000, 2048, 128, 2048, 480, 1920, 3, 1, 2]),
      f_mel_axis = Some (Obj 7 [128, 24000]),
      f_mel_axis_str = Some (Obj 8 [128, 24000, 480, 48000])\<rparr>, 9)"
  by (simp add: demo_def run_defs win_length_48000_40 ceillog2_1920 py_round_numeral)

lemma demo_8k_eq:
  "demo_8k =
    (\<lparr>wav = Obj 0 [3, - 1, 2], sr = 8000, win_length = 40, hop_length = 10,
      n_fft = 64, n_mel = 128, floor_db = - 120,
      spec = Some (Obj 1 [64, 10, 40, 3, 1, 2]),
      linear_db = Some (Obj 2 [120, 64, 10, 40, 3, 1, 2]),
      t_axis = Some (Obj 3 [10, 8000]),
      f_linear_axis = Some (Obj 4 [0, 4000, 33]),
      f_linear_axis_str = Some (Obj 5 [0, 4000, 33, 10, 8000]),
      mel_db = Some (Obj 6 [120, 8000, 64, 128, 64, 10, 40, 3, 1, 2]),
      f_mel_axis = Some (Obj 7 [128, 4000]),
      f_mel_axis_str = Some (Obj 8 [128, 4000, 10, 8000])\<rparr>, 9)"
  by (simp add: demo_8k_def run_defs win_length_8000_5 ceillog2_40 py_round_numeral)

section \<open>The overlap property\<close>

text \<open>
  Whatever the setter does afterwards, the hop length it leaves in the instance is the
  derived one: either it was already stored, or it is stored before the recomputation,
  which does not touch the parameters (also when it raises).
\<close>

lemma overlap_set_hop:
  fixes lib :: "('a, 'x) numlib"
  assumes "v \<noteq> 0" and "overlap_set lib v s = (r, s')"
  shows "params (fst s') =
           params ((fst s)\<lparr>hop_length := py_round (of_int (win_length (fst s)) / v)\<rparr>)"
proof -
  let ?h = "py_round (of_int (win_length (fst s)) / v)"
  have rd: "round_div (win_length (fst s)) v = (Inr ?h :: 'x error + int)"
    using assms(1) by (simp add: round_div_def)
  show ?thesis
  proof (cases "?h = hop_length (fst s)")
    case True
    have "s' = s" using assms(2) unfolding overlap_set_def rd using True by simp
    then show ?thesis using True by (simp add: params_def)
  next
    case False
    have "update_linear lib ((fst s)\<lparr>hop_length := ?h\<rparr>, snd s) = (r, s')"
      using assms(2) unfolding overlap_set_def rd using False by simp
    from keepsD[OF update_linear_params this] show ?thesis by simp
  qed
qed

text \<open>
  Claim C3. After \<^verbatim>\<open>set_overlap(v)\<close> with a positive \<open>v\<close> on an instance with window
  length \<open>L\<close>, reading \<^verbatim>\<open>overlap\<close> evaluates \<^verbatim>\<open>round(L / round(L / v))\<close>: the stored
  quantity is the hop length \<^verbatim>\<open>round(L / v)\<close>, and the getter divides by it again (and
  raises \<^verbatim>\<open>ZeroDivisionError\<close>, as that expression does, when the hop length is zero).
  The value read back need not be \<open>v\<close>: at 8 kHz with a 5 ms window, setting 16 reads
  back 20. This holds for every instance, and whether the setter returned or raised.
\<close>

theorem overlap_roundtrip:
  assumes "0 < v" and "overlap_set lib v s = (r, s')"
  shows "overlap_get (fst s') =
           round_div (win_length (fst s)) (of_int (py_round (of_int (win_length (fst s)) / v)))"
proof -
  have "v \<noteq> 0" using assms(1) by simp
  from overlap_set_hop[OF this assms(2)]
  have "win_length (fst s') = win_length (fst s)"
    and "hop_length (fst s') = py_round (of_int (win_length (fst s)) / v)"
    by (simp_all add: params_def)
  then show ?thesis by (simp add: overlap_get_def)
qed

theorem overlap_roundtrip_witness:
  "(0::rat) < 16 \<and> win_length (fst demo_8k) = 40 \<and>
   overlap_get (fst (snd (overlap_set toy_lib 16 demo_8k))) = (Inr 20 :: lib_exc error + int)"
proof -
  have h: "(0::rat) < 16" by simp
  have run: "overlap_set toy_lib 16 demo_8k =
               (fst (overlap_set toy_lib 16 demo_8k), snd (overlap_set toy_lib 16 demo_8k))"
    by simp
  have L: "win_length (fst demo_8k) = 40" by (simp add: demo_8k_eq)
  have v: "round_div 40 (of_int (py_round (of_int 40 / 16))) = (Inr 20 :: lib_exc error + int)"
    by (simp add: round_div_def py_round_5_2 py_round_numeral)
  have "overlap_get (fst (snd (overlap_set toy_lib 16 demo_8k))) =
          (round_div (win_length (fst demo_8k))
             (of_int (py_round (of_int (win_length (fst demo_8k)) / 16))) :: lib_exc error + int)"
    by (rule overlap_roundtrip[OF h run])
  then show ?thesis using h L v by simp
qed

text \<open>
  Claim C4. For a non-zero overlap input, \<^verbatim>\<open>set_overlap\<close> leaves the state (instance
  and allocation counter) as it was exactly when the derived hop length
  \<^verbatim>\<open>round(win_length / overlap)\<close> equals the stored one, and then it returns normally.
  Otherwise it is \<^verbatim>\<open>_update_linear\<close> run on the instance with the new hop length; when
  that returns, all eight products (five linear, three mel) are newly created objects,
  and each of them is what its library call gives at the new hop length: the magnitude
  is the scaled absolute STFT of the waveform with the new hop, the linear dB array and
  the time axis are computed from that magnitude and the new hop, the mel array from the
  filterbank applied to that magnitude, and the label arrays from the new axes; the
  instance differs from the old one in the hop length and these eight products only.
  Two inputs with the same derived hop length are indistinguishable for the setter.
\<close>

theorem overlap_set_noop_iff:
  fixes lib :: "('a, 'x) numlib"
  assumes "v \<noteq> 0"
  shows "(snd (overlap_set lib v s) = s \<longleftrightarrow>
            py_round (of_int (win_length (fst s)) / v) = hop_length (fst s))
       \<and> (py_round (of_int (win_length (fst s)) / v) = hop_length (fst s) \<longrightarrow>
            overlap_set lib v s = (Ok, s))
       \<and> (py_round (of_int (win_length (fst s)) / v) \<noteq> hop_length (fst s) \<longrightarrow>
            overlap_set lib v s =
              update_linear lib
                ((fst s)\<lparr>hop_length := py_round (of_int (win_length (fst s)) / v)\<rparr>, snd s))
       \<and> (\<forall>w. w \<noteq> 0 \<and>
               py_round (of_int (win_length (fst s)) / w) =
               py_round (of_int (win_length (fst s)) / v) \<longrightarrow>
               overlap_set lib w s = overlap_set lib v s)
       \<and> (\<forall>s'. py_round (of_int (win_length (fst s)) / v) \<noteq> hop_length (fst s) \<and>
                overlap_set lib v s = (Ok, s') \<longrightarrow>
                (\<exists>a0 a1 a2 a3 a4 a5 a6 a7.
                   linear_products (fst s') =
                     (Some (Obj (snd s) a0), Some (Obj (snd s + 1) a1), Some (Obj (snd s + 2) a2),
                      Some (Obj (snd s + 3) a3), Some (Obj (snd s + 4) a4))
                 \<and> mel_products (fst s') =
                     (Some (Obj (snd s + 5) a5), Some (Obj (snd s + 6) a6),
                      Some (Obj (snd s + 7) a7))
                 \<and> snd s' = snd s + 8))
       \<and> (\<forall>s'. py_round (of_int (win_length (fst s)) / v) \<noteq> hop_length (fst s) \<and>
                overlap_set lib v s = (Ok, s') \<longrightarrow>
                (\<exists>S a0 a1 a2 a3 a4 fb m a5 a6 a7.
                   stft lib (val (wav (fst s))) (n_fft (fst s))
                     (py_round (of_int (win_length (fst s)) / v)) (win_length (fst s)) = Inr S
                 \<and> win_length (fst s) \<noteq> 0
                 \<and> a0 = times lib (np_abs lib S)
                          (1024 / of_int (win_length (fst s)) * of_int (sr (fst s)) / 48000)
                 \<and> amplitude_to_db lib a0 (of_int (floor_db (fst s)) / 20) (- floor_db (fst s)) =
                     Inr a1
                 \<and> frame_times lib a0 (py_round (of_int (win_length (fst s)) / v)) (sr (fst s)) =
                     Inr a2
                 \<and> linspace lib 0 (sr (fst s) div 2) (n_fft (fst s) div 2 + 1) = Inr a3
                 \<and> freq_expr_tile lib a3 a2 = Inr a4
                 \<and> mel_filter lib (sr (fst s)) (n_fft (fst s)) (n_mel (fst s)) = Inr fb
                 \<and> matmul lib fb a0 = Inr m
                 \<and> amplitude_to_db lib m (of_int (floor_db (fst s)) / 20) (- floor_db (fst s)) =
                     Inr a5
                 \<and> mel_frequencies lib (n_mel (fst s)) (sr (fst s) div 2) = Inr a6
                 \<and> freq_expr_tile lib a6 a2 = Inr a7
                 \<and> s' = ((fst s)\<lparr>hop_length := py_round (of_int (win_length (fst s)) / v),
                                  spec := Some (Obj (snd s) a0),
                                  linear_db := Some (Obj (snd s + 1) a1),
                                  t_axis := Some (Obj (snd s + 2) a2),
                                  f_linear_axis := Some (Obj (snd s + 3) a3),
                                  f_linear_axis_str := Some (Obj (snd s + 4) a4),
                                  mel_db := Some (Obj (snd s + 5) a5),
                                  f_mel_axis := Some (Obj (snd s + 6) a6),
                                  f_mel_axis_str := Some (Obj (snd s + 7) a7)\<rparr>,
                          snd s + 8)))"
proof -
  let ?h = "py_round (of_int (win_length (fst s)) / v)"
  have rd: "\<And>u. u \<noteq> 0 \<Longrightarrow> round_div (win_length (fst s)) u =
                (Inr (py_round (of_int (win_length (fst s)) / u)) :: 'x error + int)"
    by (simp add: round_div_def)
  have same: "?h = hop_length (fst s) \<longrightarrow> overlap_set lib v s = (Ok, s)"
    unfolding overlap_set_def rd[OF assms] by simp
  have recompute: "?h \<noteq> hop_length (fst s) \<longrightarrow>
      overlap_set lib v s = update_linear lib ((fst s)\<lparr>hop_length := ?h\<rparr>, snd s)"
    unfolding overlap_set_def rd[OF assms] by simp
  have changed: "snd (overlap_set lib v s) = s \<longrightarrow> ?h = hop_length (fst s)"
  proof
    assume same_state: "snd (overlap_set lib v s) = s"
    have run: "overlap_set lib v s = (fst (overlap_set lib v s), s)"
      using same_state by (metis prod.collapse)
    from overlap_set_hop[OF assms run] show "?h = hop_length (fst s)"
      by (simp add: params_def)
  qed
  have alike: "\<forall>w. w \<noteq> 0 \<and> py_round (of_int (win_length (fst s)) / w) = ?h \<longrightarrow>
                 overlap_set lib w s = overlap_set lib v s"
    unfolding overlap_set_def using rd rd[OF assms] by simp
  have full: "\<forall>s'. ?h \<noteq> hop_length (fst s) \<and> overlap_set lib v s = (Ok, s') \<longrightarrow>
                (\<exists>a0 a1 a2 a3 a4 a5 a6 a7.
                   linear_products (fst s') =
                     (Some (Obj (snd s) a0), Some (Obj (snd s + 1) a1), Some (Obj (snd s + 2) a2),
                      Some (Obj (snd s + 3) a3), Some (Obj (snd s + 4) a4))
                 \<and> mel_products (fst s') =
                     (Some (Obj (snd s + 5) a5), Some (Obj (snd s + 6) a6),
                      Some (Obj (snd s + 7) a7))
                 \<and> snd s' = snd s + 8)"
  proof (intro allI impI)
    fix s' assume a: "?h \<noteq> hop_length (fst s) \<and> overlap_set lib v s = (Ok, s')"
    then have "update_linear lib ((fst s)\<lparr>hop_length := ?h\<rparr>, snd s) = (Ok, (fst s', snd s'))"
      using recompute by simp
    from update_linear_Ok[OF this] show "\<exists>a0 a1 a2 a3 a4 a5 a6 a7.
                   linear_products (fst s') =
                     (Some (Obj (snd s) a0), Some (Obj (snd s + 1) a1), Some (Obj (snd s + 2) a2),
                      Some (Obj (snd s + 3) a3), Some (Obj (snd s + 4) a4))
                 \<and> mel_products (fst s') =
                     (Some (Obj (snd s + 5) a5), Some (Obj (snd s + 6) a6),
                      Some (Obj (snd s + 7) a7))
                 \<and> snd s' = snd s + 8" .
  qed
  have iff: "snd (overlap_set lib v s) = s \<longleftrightarrow> ?h = hop_length (fst s)"
  proof
    assume "snd (overlap_set lib v s) = s"
    then show "?h = hop_length (fst s)" using changed by (rule rev_mp)
  next
    assume "?h = hop_length (fst s)"
    then have "overlap_set lib v s = (Ok, s)" using same by (rule rev_mp)
    then show "snd (overlap_set lib v s) = s" by simp
  qed
  have pinned: "\<forall>s'. ?h \<noteq> hop_length (fst s) \<and> overlap_set lib v s = (Ok, s') \<longrightarrow>
                (\<exists>S a0 a1 a2 a3 a4 fb m a5 a6 a7.
                   stft lib (val (wav (fst s))) (n_fft (fst s))
                     (?h) (win_length (fst s)) = Inr S
                 \<and> win_length (fst s) \<noteq> 0
                 \<and> a0 = times lib (np_abs lib S)
                          (1024 / of_int (win_length (fst s)) * of_int (sr (fst s)) / 48000)
                 \<and> amplitude_to_db lib a0 (of_int (floor_db (fst s)) / 20) (- floor_db (fst s)) =
                     Inr a1
                 \<and> frame_times lib a0 (?h) (sr (fst s)) =
                     Inr a2
                 \<and> linspace lib 0 (sr (fst s) div 2) (n_fft (fst s) div 2 + 1) = Inr a3
                 \<and> freq_expr_tile lib a3 a2 = Inr a4
                 \<and> mel_filter lib (sr (fst s)) (n_fft (fst s)) (n_mel (fst s)) = Inr fb
                 \<and> matmul lib fb a0 = Inr m
                 \<and> amplitude_to_db lib m (of_int (floor_db (fst s)) / 20) (- floor_db (fst s)) =
                     Inr a5
                 \<and> mel_frequencies lib (n_mel (fst s)) (sr (fst s) div 2) = Inr a6
                 \<and> freq_expr_tile lib a6 a2 = Inr a7
                 \<and> s' = ((fst s)\<lparr>hop_length := ?h,
                                  spec := Some (Obj (snd s) a0),
                                  linear_db := Some (Obj (snd s + 1) a1),
                                  t_axis := Some (Obj (snd s + 2) a2),
                                  f_linear_axis := Some (Obj (snd s + 3) a3),
                                  f_linear_axis_str := Some (Obj (snd s + 4) a4),
                                  mel_db := Some (Obj (snd s + 5) a5),
                                  f_mel_axis := Some (Obj (snd s + 6) a6),
                                  f_mel_axis_str := Some (Obj (snd s + 7) a7)\<rparr>,
                          snd s + 8))"
  proof (intro allI impI)
    fix s' assume a: "?h \<noteq> hop_length (fst s) \<and> overlap_set lib v s = (Ok, s')"
    then have "update_linear lib ((fst s)\<lparr>hop_length := ?h\<rparr>, snd s) = (Ok, s')"
      using recompute by simp
    from update_linear_Ok_pinned[OF this]
    show "(\<exists>S a0 a1 a2 a3 a4 fb m a5 a6 a7.
                   stft lib (val (wav (fst s))) (n_fft (fst s))
                     (?h) (win_length (fst s)) = Inr S
                 \<and> win_length (fst s) \<noteq> 0
                 \<and> a0 = times lib (np_abs lib S)
                          (1024 / of_int (win_length (fst s)) * of_int (sr (fst s)) / 48000)
                 \<and> amplitude_to_db lib a0 (of_int (floor_db (fst s)) / 20) (- floor_db (fst s)) =
                     Inr a1
                 \<and> frame_times lib a0 (?h) (sr (fst s)) =
                     Inr a2
                 \<and> linspace lib 0 (sr (fst s) div 2) (n_fft (fst s) div 2 + 1) = Inr a3
                 \<and> freq_expr_tile lib a3 a2 = Inr a4
                 \<and> mel_filter lib (sr (fst s)) (n_fft (fst s)) (n_mel (fst s)) = Inr fb
                 \<and> matmul lib fb a0 = Inr m
                 \<and> amplitude_to_db lib m (of_int (floor_db (fst s)) / 20) (- floor_db (fst s)) =
                     Inr a5
                 \<and> mel_frequencies lib (n_mel (fst s)) (sr (fst s) div 2) = Inr a6
                 \<and> freq_expr_tile lib a6 a2 = Inr a7
                 \<and> s' = ((fst s)\<lparr>hop_length := ?h,
                                  spec := Some (Obj (snd s) a0),
                                  linear_db := Some (Obj (snd s + 1) a1),
                                  t_axis := Some (Obj (snd s + 2) a2),
                                  f_linear_axis := Some (Obj (snd s + 3) a3),
                                  f_linear_axis_str := Some (Obj (snd s + 4) a4),
                                  mel_db := Some (Obj (snd s + 5) a5),
                                  f_mel_axis := Some (Obj (snd s + 6) a6),
                                  f_mel_axis_str := Some (Obj (snd s + 7) a7)\<rparr>,
                          snd s + 8))"
      by simp
  qed
  show ?thesis
    by (rule conjI[OF iff conjI[OF same conjI[OF recompute conjI[OF alike
          conjI[OF full pinned]]]]])
qed

lemma py_round_1920000_4001: "py_round (1920000 / 4001) = 480"
  by code_simp

theorem overlap_set_noop_iff_witness:
  "(4::rat) \<noteq> 0 \<and> (4001 / 1000 :: rat) \<noteq> 0 \<and> (4001 / 1000 :: rat) \<noteq> 4
   \<and> hop_length (fst demo) = 480
   \<and> overlap_set toy_lib 4 demo = (Ok, demo)
   \<and> overlap_set toy_lib (4001 / 1000) demo = (Ok, demo)
   \<and> snd (overlap_set toy_lib 8 demo) \<noteq> demo
   \<and> snd (snd (overlap_set toy_lib 8 demo)) = snd demo + 8
   \<and> t_axis (fst demo) = Some (Obj 3 [480, 48000])
   \<and> t_axis (fst (snd (overlap_set toy_lib 8 demo))) = Some (Obj 11 [240, 48000])"
proof -
  have v: "(4::rat) \<noteq> 0" by simp
  have w: "(4001 / 1000 :: rat) \<noteq> 0 \<and> (4001 / 1000 :: rat) \<noteq> 4" by simp
  have hop: "hop_length (fst demo) = 480" by (simp add: demo_eq)
  have r4: "py_round (of_int (win_length (fst demo)) / 4) = hop_length (fst demo)"
    by (simp add: demo_eq py_round_numeral)
  have rw: "py_round (of_int (win_length (fst demo)) / (4001 / 1000)) =
            py_round (of_int (win_length (fst demo)) / 4)"
    by (simp add: demo_eq py_round_numeral py_round_1920000_4001)
  have r8: "py_round (of_int (win_length (fst demo)) / 8) \<noteq> hop_length (fst demo)"
    by (simp add: demo_eq py_round_numeral)
  have ok8: "overlap_set toy_lib 8 demo = (Ok, snd (overlap_set toy_lib 8 demo))"
    by (simp add: demo_eq run_defs py_round_numeral)
  note four = overlap_set_noop_iff[OF v, of toy_lib demo]
  have eight: "(8::rat) \<noteq> 0" by simp
  note oct = overlap_set_noop_iff[OF eight, of toy_lib demo]
  have a: "overlap_set toy_lib 4 demo = (Ok, demo)"
    by (rule mp[OF four[THEN conjunct2, THEN conjunct1] r4])
  have w0: "(4001 / 1000 :: rat) \<noteq> 0" by simp
  have "overlap_set toy_lib (4001 / 1000) demo = overlap_set toy_lib 4 demo"
    by (rule four[THEN conjunct2, THEN conjunct2, THEN conjunct2, THEN conjunct1,
                  rule_format, OF conjI[OF w0 rw]])
  then have b: "overlap_set toy_lib (4001 / 1000) demo = (Ok, demo)"
    using a by simp
  have c: "snd (overlap_set toy_lib 8 demo) \<noteq> demo"
    using oct[THEN conjunct1] r8 by simp
  have "\<exists>a0 a1 a2 a3 a4 a5 a6 a7.
          linear_products (fst (snd (overlap_set toy_lib 8 demo))) =
            (Some (Obj (snd demo) a0), Some (Obj (snd demo + 1) a1),
             Some (Obj (snd demo + 2) a2), Some (Obj (snd demo + 3) a3),
             Some (Obj (snd demo + 4) a4))
        \<and> mel_products (fst (snd (overlap_set toy_lib 8 demo))) =
            (Some (Obj (snd demo + 5) a5), Some (Obj (snd demo + 6) a6),
             Some (Obj (snd demo + 7) a7))
        \<and> snd (snd (overlap_set toy_lib 8 demo)) = snd demo + 8"
    by (rule oct[THEN conjunct2, THEN conjunct2, THEN conjunct2, THEN conjunct2,
                 THEN conjunct1, rule_format, OF conjI[OF r8 ok8]])
  then have d: "snd (snd (overlap_set toy_lib 8 demo)) = snd demo + 8"
    by blast
  have h8: "py_round (of_int (win_length (fst demo)) / 8) = 240"
    by (simp add: demo_eq py_round_numeral)
  from oct[THEN conjunct2, THEN conjunct2, THEN conjunct2, THEN conjunct2, THEN conjunct2,
           rule_format, OF conjI[OF r8 ok8]]
  obtain a0 a2 where ft: "frame_times toy_lib a0
                            (py_round (of_int (win_length (fst demo)) / 8)) (sr (fst demo)) = Inr a2"
    and ta: "t_axis (fst (snd (overlap_set toy_lib 8 demo))) = Some (Obj (snd demo + 2) a2)"
    by auto
  have "a2 = [240, 48000]"
    using ft unfolding h8 by (simp add: demo_eq toy_lib_def lenient_lib_def)
  then have e: "t_axis (fst (snd (overlap_set toy_lib 8 demo))) = Some (Obj 11 [240, 48000])"
    using ta by (simp add: demo_eq)
  have f: "t_axis (fst demo) = Some (Obj 3 [480, 48000])" by (simp add: demo_eq)
  show ?thesis using v w hop a b c d e f by simp
qed

section \<open>The window-length property\<close>

text \<open>What the window setter does to the parameters, in every branch.\<close>

lemma win_ms_set_params:
  fixes lib :: "('a, 'x) numlib"
  assumes "win_length_of (sr (fst s)) w \<noteq> win_length (fst s)"
    and "win_ms_set lib w s = (r, s')"
  shows "params (fst s') =
           params ((fst s)\<lparr>win_length := win_length_of (sr (fst s)) w,
                           n_fft := (case (n_fft_of (win_length_of (sr (fst s)) w) :: 'x error + int) of
                                       Inl err \<Rightarrow> n_fft (fst s) | Inr n \<Rightarrow> n)\<rparr>)"
proof (cases "n_fft_of (win_length_of (sr (fst s)) w) :: 'x error + int")
  case (Inl err)
  then have "s' = ((fst s)\<lparr>win_length := win_length_of (sr (fst s)) w\<rparr>, snd s)"
    using assms by (simp add: win_ms_set_def Let_def)
  then show ?thesis using Inl by (simp add: params_def)
next
  case (Inr n)
  then have "update_linear lib
               ((fst s)\<lparr>win_length := win_length_of (sr (fst s)) w, n_fft := n\<rparr>, snd s) = (r, s')"
    using assms by (simp add: win_ms_set_def Let_def)
  from keepsD[OF update_linear_params this] show ?thesis using Inr by simp
qed

text \<open>
  Claim C10. When the derived window length differs from the stored one,
  \<^verbatim>\<open>set_window_ms\<close> stores the new window length, then the FFT size computed from it
  (for a non-negative length, where that computation does not raise), and then runs
  \<^verbatim>\<open>_update_linear\<close> on exactly that instance; the hop length (and waveform, sample
  rate, mel count, floor) stay as they were, whatever the outcome. Reading \<^verbatim>\<open>overlap\<close>
  afterwards therefore evaluates \<^verbatim>\<open>round(new_win_length / old_hop_length)\<close>.
\<close>

theorem win_ms_set_keeps_hop:
  fixes lib :: "('a, 'x) numlib"
  assumes "win_length_of (sr (fst s)) w \<noteq> win_length (fst s)"
    and "win_ms_set lib w s = (r, s')"
  shows "hop_length (fst s') = hop_length (fst s)
       \<and> wav (fst s') = wav (fst s) \<and> sr (fst s') = sr (fst s)
       \<and> n_mel (fst s') = n_mel (fst s) \<and> floor_db (fst s') = floor_db (fst s)
       \<and> win_length (fst s') = win_length_of (sr (fst s)) w
       \<and> (\<forall>n. n_fft_of (win_length_of (sr (fst s)) w) = (Inr n :: 'x error + int) \<longrightarrow>
            n_fft (fst s') = n \<and>
            (r, s') = update_linear lib
                        ((fst s)\<lparr>win_length := win_length_of (sr (fst s)) w, n_fft := n\<rparr>, snd s))
       \<and> (0 \<le> win_length_of (sr (fst s)) w \<longrightarrow>
            (n_fft_of (win_length_of (sr (fst s)) w) :: 'x error + int) = Inr (n_fft (fst s')))
       \<and> (overlap_get (fst s') :: 'x error + int) =
            round_div (win_length_of (sr (fst s)) w) (of_int (hop_length (fst s)))"
proof -
  let ?L = "win_length_of (sr (fst s)) w"
  note p = win_ms_set_params[OF assms]
  have frame: "hop_length (fst s') = hop_length (fst s)" "wav (fst s') = wav (fst s)"
    "sr (fst s') = sr (fst s)" "n_mel (fst s') = n_mel (fst s)"
    "floor_db (fst s') = floor_db (fst s)" "win_length (fst s') = ?L"
    using p by (simp_all add: params_def)
  have fft: "\<forall>n. n_fft_of ?L = (Inr n :: 'x error + int) \<longrightarrow>
            n_fft (fst s') = n \<and>
            (r, s') = update_linear lib ((fst s)\<lparr>win_length := ?L, n_fft := n\<rparr>, snd s)"
  proof (intro allI impI)
    fix n assume n: "n_fft_of ?L = (Inr n :: 'x error + int)"
    have a: "n_fft (fst s') = n" using p n by (simp add: params_def)
    have b: "(r, s') = update_linear lib ((fst s)\<lparr>win_length := ?L, n_fft := n\<rparr>, snd s)"
      using assms n by (simp add: win_ms_set_def Let_def)
    show "n_fft (fst s') = n \<and>
            (r, s') = update_linear lib ((fst s)\<lparr>win_length := ?L, n_fft := n\<rparr>, snd s)"
      using a b by (rule conjI)
  qed
  have nonneg: "0 \<le> ?L \<longrightarrow> (n_fft_of ?L :: 'x error + int) = Inr (n_fft (fst s'))"
  proof
    assume "0 \<le> ?L"
    then have n: "n_fft_of ?L =
                    (Inr (if ?L = 0 then 0 else 2 ^ ceillog2 (nat ?L)) :: 'x error + int)"
      by (simp add: n_fft_of_def)
    from fft[rule_format, OF n]
    have "n_fft (fst s') = (if ?L = 0 then 0 else 2 ^ ceillog2 (nat ?L))" by (rule conjunct1)
    then show "(n_fft_of ?L :: 'x error + int) = Inr (n_fft (fst s'))" using n by simp
  qed
  have readback: "(overlap_get (fst s') :: 'x error + int) = round_div ?L (of_int (hop_length (fst s)))"
    using frame by (simp add: overlap_get_def)
  show ?thesis
    by (rule conjI[OF frame(1) conjI[OF frame(2) conjI[OF frame(3) conjI[OF frame(4)
          conjI[OF frame(5) conjI[OF frame(6) conjI[OF fft conjI[OF nonneg readback]]]]]]]])
qed

lemma win_length_48000_5: "win_length_of 48000 5 = 240"
  by (simp add: win_length_of_def py_round_numeral)

lemma py_round_half: "py_round (1 / 2) = 0"
  by code_simp

theorem win_ms_set_keeps_hop_witness:
  "win_length_of (sr (fst demo)) 5 \<noteq> win_length (fst demo)
   \<and> (overlap_get (fst demo) :: lib_exc error + int) = Inr 4
   \<and> hop_length (fst (snd (win_ms_set toy_lib 5 demo))) = 480
   \<and> win_length (fst (snd (win_ms_set toy_lib 5 demo))) = 240
   \<and> n_fft (fst (snd (win_ms_set toy_lib 5 demo))) = 256
   \<and> (overlap_get (fst (snd (win_ms_set toy_lib 5 demo))) :: lib_exc error + int) = Inr 0"
proof -
  have d: "win_length_of (sr (fst demo)) 5 \<noteq> win_length (fst demo)"
    by (simp add: demo_eq win_length_48000_5)
  have run: "win_ms_set toy_lib 5 demo =
               (fst (win_ms_set toy_lib 5 demo), snd (win_ms_set toy_lib 5 demo))"
    by simp
  note t = win_ms_set_keeps_hop[OF d run]
  have before: "(overlap_get (fst demo) :: lib_exc error + int) = Inr 4"
    by (simp add: demo_eq overlap_get_def round_div_def py_round_numeral)
  have L: "win_length_of (sr (fst demo)) 5 = 240" "hop_length (fst demo) = 480"
    by (simp_all add: demo_eq win_length_48000_5)
  have c256: "ceillog2 240 = 8" by (rule ceillog2_eqI) simp_all
  have nf: "(n_fft_of 240 :: lib_exc error + int) = Inr 256"
    by (simp add: n_fft_of_def c256)
  have nn: "0 \<le> win_length_of (sr (fst demo)) 5" using L by simp
  have h: "hop_length (fst (snd (win_ms_set toy_lib 5 demo))) = 480"
    using t[THEN conjunct1] L(2) by simp
  have wl: "win_length (fst (snd (win_ms_set toy_lib 5 demo))) = 240"
    using t[THEN conjunct2, THEN conjunct2, THEN conjunct2, THEN conjunct2, THEN conjunct2,
            THEN conjunct1] L(1) by simp
  have "n_fft_of (win_length_of (sr (fst demo)) 5) =
          (Inr (n_fft (fst (snd (win_ms_set toy_lib 5 demo)))) :: lib_exc error + int)"
    by (rule mp[OF t[THEN conjunct2, THEN conjunct2, THEN conjunct2, THEN conjunct2,
            THEN conjunct2, THEN conjunct2, THEN conjunct2, THEN conjunct1] nn])
  then have n: "n_fft (fst (snd (win_ms_set toy_lib 5 demo))) = 256"
    unfolding L(1) nf by simp
  have "(overlap_get (fst (snd (win_ms_set toy_lib 5 demo))) :: lib_exc error + int) =
          round_div (win_length_of (sr (fst demo)) 5) (of_int (hop_length (fst demo)))"
    by (rule t[THEN conjunct2, THEN conjunct2, THEN conjunct2, THEN conjunct2,
            THEN conjunct2, THEN conjunct2, THEN conjunct2, THEN conjunct2])
  then have o: "(overlap_get (fst (snd (win_ms_set toy_lib 5 demo))) :: lib_exc error + int) = Inr 0"
    unfolding L by (simp add: round_div_def py_round_half)
  show ?thesis using d before h wl n o by simp
qed

section \<open>The mel-count property\<close>



section \<open>The FFT size\<close>

lemma n_fft_of_smallest:
  assumes "0 < L" and "n_fft_of L = (Inr n :: 'x error + int)"
  shows "smallest_power_of_two_geq n L"
proof -
  have n: "n = 2 ^ ceillog2 (nat L)"
    using assms by (simp add: n_fft_of_def)
  show ?thesis
    unfolding smallest_power_of_two_geq_def n
    using two_power_ceillog2_least[OF assms(1)] by blast
qed

lemma init_params:
  fixes lib :: "('a, 'x) numlib"
  assumes "init lib w sr0 wm ov nm c = Inr s"
  shows "sr (fst s) = sr0 \<and> win_length (fst s) = win_length_of sr0 wm
       \<and> (n_fft_of (win_length_of sr0 wm) :: 'x error + int) = Inr (n_fft (fst s))
       \<and> (round_div (win_length_of sr0 wm) ov :: 'x error + int) = Inr (hop_length (fst s))"
proof -
  let ?L = "win_length_of sr0 wm"
  obtain h where h: "(round_div ?L ov :: 'x error + int) = Inr h"
    using assms by (cases "round_div ?L ov :: 'x error + int")
                   (simp_all add: init_def Let_def and_then_def)
  obtain n where n: "(n_fft_of ?L :: 'x error + int) = Inr n"
    using assms h by (cases "n_fft_of ?L :: 'x error + int")
                     (simp_all add: init_def Let_def and_then_def)
  let ?m = "if 1 < ndim lib (val w) then (Obj c (mean_axis1 lib (val w)), Suc c) else (w, c)"
  let ?e0 = "\<lparr>wav = fst ?m, sr = sr0, win_length = ?L, hop_length = h, n_fft = n,
               n_mel = nm, floor_db = - 120,
               spec = None, linear_db = None, t_axis = None, f_linear_axis = None,
               f_linear_axis_str = None, mel_db = None, f_mel_axis = None,
               f_mel_axis_str = None\<rparr>"
  obtain r s1 where run: "update_linear lib (?e0, snd ?m) = (r, s1)"
    by (cases "update_linear lib (?e0, snd ?m)")
  have "s1 = s"
    using assms h n run by (cases r) (simp_all add: init_def Let_def and_then_def)
  with keepsD[OF update_linear_params run] have "params (fst s) = params ?e0" by simp
  then show ?thesis using h n by (simp add: params_def)
qed

text \<open>
  In every instance a program can hold, a positive window length comes with the FFT size
  computed from it: a setter that raised half-way has either not touched the two, or has
  stored a negative window length.
\<close>

lemma constructed_n_fft:
  fixes lib :: "('a, 'x) numlib"
  assumes "constructed lib s"
  shows "0 < win_length (fst s) \<longrightarrow>
           (n_fft_of (win_length (fst s)) :: 'x error + int) = Inr (n_fft (fst s))"
  using assms
proof (induction rule: constructed.induct)
  case (by_init w sr0 win_ms overlap n_mel0 c s)
  from init_params[OF this] show ?case by simp
next
  case (by_overlap_set s v r s')
  show ?case
  proof (cases "v = 0")
    case True
    then have "s' = s" using by_overlap_set.hyps(2)
      by (simp add: overlap_set_def round_div_def)
    then show ?thesis using by_overlap_set.IH by simp
  next
    case False
    from overlap_set_hop[OF False by_overlap_set.hyps(2)]
    have "win_length (fst s') = win_length (fst s)" "n_fft (fst s') = n_fft (fst s)"
      by (simp_all add: params_def)
    then show ?thesis using by_overlap_set.IH by simp
  qed
next
  case (by_win_ms_set s w r s')
  show ?case
  proof (cases "win_length_of (sr (fst s)) w = win_length (fst s)")
    case True
    then have "s' = s" using by_win_ms_set.hyps(2) by (simp add: win_ms_set_def)
    then show ?thesis using by_win_ms_set.IH by simp
  next
    case False
    from win_ms_set_params[OF False by_win_ms_set.hyps(2)]
    have "win_length (fst s') = win_length_of (sr (fst s)) w"
      and "n_fft (fst s') =
             (case (n_fft_of (win_length_of (sr (fst s)) w) :: 'x error + int) of
                Inl err \<Rightarrow> n_fft (fst s) | Inr n \<Rightarrow> n)"
      by (simp_all add: params_def)
    then show ?thesis by (simp add: n_fft_of_def)
  qed
next
  case (by_n_mel_set s n r s')
  show ?case
  proof (cases "n = n_mel (fst s)")
    case True
    then have "s' = s" using by_n_mel_set.hyps(2) by (simp add: n_mel_set_def)
    then show ?thesis using by_n_mel_set.IH by simp
  next
    case False
    then have "update_mel lib ((fst s)\<lparr>n_mel := n\<rparr>, snd s) = (r, s')"
      using by_n_mel_set.hyps(2) by (simp add: n_mel_set_def)
    from keepsD[OF update_mel_params this]
    have "win_length (fst s') = win_length (fst s)" "n_fft (fst s') = n_fft (fst s)"
      by (simp_all add: params_def)
    then show ?thesis using by_n_mel_set.IH by simp
  qed
next
  case (by_alloc e c c')
  then show ?case by simp
qed

text \<open>
  Claim C2. Whenever the derived window length \<^verbatim>\<open>round(sample_rate * window_ms / 1000)\<close>
  is positive: after a constructor call that returned, and after a \<^verbatim>\<open>set_window_ms\<close>
  call on a constructed instance (returned or raised), the stored window length is that
  derived length and the stored FFT size is the smallest power of two greater than or
  equal to it.
\<close>

theorem fft_size_smallest_power_of_two:
  fixes lib :: "('a, 'x) numlib"
  shows "(init lib w sr0 wm ov nm c = Inr s \<and> 0 < win_length_of sr0 wm \<longrightarrow>
            win_length (fst s) = win_length_of sr0 wm
          \<and> smallest_power_of_two_geq (n_fft (fst s)) (win_length_of sr0 wm))
       \<and> (constructed lib t \<and> win_ms_set lib wm' t = (r, t')
            \<and> 0 < win_length_of (sr (fst t)) wm' \<longrightarrow>
            win_length (fst t') = win_length_of (sr (fst t)) wm'
          \<and> sr (fst t') = sr (fst t)
          \<and> smallest_power_of_two_geq (n_fft (fst t')) (win_length_of (sr (fst t)) wm'))"
proof (intro conjI impI)
  assume a: "init lib w sr0 wm ov nm c = Inr s \<and> 0 < win_length_of sr0 wm"
  note p = init_params[OF a[THEN conjunct1]]
  show "win_length (fst s) = win_length_of sr0 wm" using p by simp
  show "smallest_power_of_two_geq (n_fft (fst s)) (win_length_of sr0 wm)"
    using n_fft_of_smallest[OF a[THEN conjunct2]] p by blast
next
  assume a: "constructed lib t \<and> win_ms_set lib wm' t = (r, t')
               \<and> 0 < win_length_of (sr (fst t)) wm'"
  then have c: "constructed lib t" and run: "win_ms_set lib wm' t = (r, t')"
    and pos: "0 < win_length_of (sr (fst t)) wm'" by simp_all
  have c': "constructed lib t'" using c run by (rule by_win_ms_set)
  have wl: "win_length (fst t') = win_length_of (sr (fst t)) wm' \<and> sr (fst t') = sr (fst t)"
  proof (cases "win_length_of (sr (fst t)) wm' = win_length (fst t)")
    case True
    then have "t' = t" using run by (simp add: win_ms_set_def)
    then show ?thesis using True by simp
  next
    case False
    from win_ms_set_params[OF False run] show ?thesis by (simp add: params_def)
  qed
  show "win_length (fst t') = win_length_of (sr (fst t)) wm'" using wl by simp
  show "sr (fst t') = sr (fst t)" using wl by simp
  have "(n_fft_of (win_length (fst t')) :: 'x error + int) = Inr (n_fft (fst t'))"
    using constructed_n_fft[OF c'] pos wl by simp
  then show "smallest_power_of_two_geq (n_fft (fst t')) (win_length_of (sr (fst t)) wm')"
    using n_fft_of_smallest[OF pos] wl by simp
qed

lemma init_demo: "init toy_lib (Obj 0 [3, - 1, 2]) 48000 40 4 128 1 = Inr demo"
  unfolding demo_eq
  by (simp add: run_defs win_length_48000_40 ceillog2_1920 py_round_numeral)

theorem fft_size_smallest_power_of_two_witness:
  "init toy_lib (Obj 0 [3, - 1, 2]) 48000 40 4 128 1 = Inr demo
   \<and> 0 < win_length_of 48000 40
   \<and> win_length (fst demo) = 1920 \<and> n_fft (fst demo) = 2048
   \<and> smallest_power_of_two_geq 2048 1920
   \<and> constructed toy_lib demo
   \<and> 0 < win_length_of (sr (fst demo)) 5
   \<and> win_length (fst (snd (win_ms_set toy_lib 5 demo))) = 240
   \<and> smallest_power_of_two_geq (n_fft (fst (snd (win_ms_set toy_lib 5 demo)))) 240"
proof -
  have i: "init toy_lib (Obj 0 [3, - 1, 2]) 48000 40 4 128 1 = Inr demo" by (rule init_demo)
  have p: "0 < win_length_of 48000 40" by (simp add: win_length_48000_40)
  have c: "constructed toy_lib demo" using i by (rule by_init)
  have run: "win_ms_set toy_lib 5 demo =
               (fst (win_ms_set toy_lib 5 demo), snd (win_ms_set toy_lib 5 demo))"
    by simp
  have q: "0 < win_length_of (sr (fst demo)) 5" by (simp add: demo_eq win_length_48000_5)
  note t = fft_size_smallest_power_of_two[of toy_lib "Obj 0 [3, - 1, 2]" 48000 40 4 128 1 demo
             demo 5 "fst (win_ms_set toy_lib 5 demo)" "snd (win_ms_set toy_lib 5 demo)"]
  have one: "win_length (fst demo) = win_length_of 48000 40
           \<and> smallest_power_of_two_geq (n_fft (fst demo)) (win_length_of 48000 40)"
    by (rule mp[OF t[THEN conjunct1] conjI[OF i p]])
  have two: "win_length (fst (snd (win_ms_set toy_lib 5 demo))) = win_length_of (sr (fst demo)) 5
           \<and> sr (fst (snd (win_ms_set toy_lib 5 demo))) = sr (fst demo)
           \<and> smallest_power_of_two_geq (n_fft (fst (snd (win_ms_set toy_lib 5 demo))))
                (win_length_of (sr (fst demo)) 5)"
    by (rule mp[OF t[THEN conjunct2] conjI[OF c conjI[OF run q]]])
  have v: "n_fft (fst demo) = 2048" "sr (fst demo) = 48000" by (simp_all add: demo_eq)
  show ?thesis
    using i p c q one two unfolding v win_length_48000_40 win_length_48000_5 by simp
qed

section \<open>Setter calls that raise\<close>





section \<open>Constructor calls that raise\<close>

text \<open>How the two recomputation stages can raise.\<close>

lemma update_mel_Raised:
  assumes "update_mel lib (e, c) = (Raised err, s')"
    and "spec e \<noteq> None" and "t_axis e \<noteq> None"
  shows "\<exists>x. err = LibraryError x"
  using assms unfolding update_mel_def
  by (auto simp: assign_def mel_rhs_def f_mel_axis_rhs_def f_mel_axis_str_rhs_def amp_to_db_def
                 and_then_def attr_def lib_call_def
           split: sum.splits if_splits)

lemma update_linear_Raised:
  assumes "update_linear lib (e, c) = (Raised err, s')"
  shows "(err = ZeroDivisionError \<and> win_length e = 0) \<or> (\<exists>x. err = LibraryError x)"
proof -
  let ?lin = "[assign (spec_rhs lib) (\<lambda>a e. e\<lparr>spec := Some a\<rparr>),
       assign (linear_rhs lib) (\<lambda>a e. e\<lparr>linear_db := Some a\<rparr>),
       assign (t_axis_rhs lib) (\<lambda>a e. e\<lparr>t_axis := Some a\<rparr>),
       assign (f_linear_axis_rhs lib) (\<lambda>a e. e\<lparr>f_linear_axis := Some a\<rparr>),
       assign (f_linear_axis_str_rhs lib) (\<lambda>a e. e\<lparr>f_linear_axis_str := Some a\<rparr>)]"
  have split_block: "update_linear lib (e, c) =
      (case block ?lin (e, c) of (Ok, s1) \<Rightarrow> update_mel lib s1 | (Raised x, s1) \<Rightarrow> (Raised x, s1))"
    unfolding update_linear_def
    by (simp add: assign_def split: sum.splits prod.splits outcome.splits)
  obtain r s1 where Pair: "block ?lin (e, c) = (r, s1)"
    by (cases "block ?lin (e, c)")
  show ?thesis
  proof (cases r)
    case Ok
    then have lin: "block ?lin (e, c) = (Ok, s1)" using Pair by simp
    then have set: "spec (fst s1) \<noteq> None \<and> t_axis (fst s1) \<noteq> None"
      by (auto simp del: block.simps dest!: block_assign_Ok block_Nil_Ok)
    have "update_mel lib (fst s1, snd s1) = (Raised err, s')"
      using assms split_block lin by simp
    from update_mel_Raised[OF this] set show ?thesis by simp
  next
    case (Raised x)
    then have "block ?lin (e, c) = (Raised err, s')"
      using assms split_block Pair by simp
    then show ?thesis
      by (auto simp: assign_def spec_rhs_def linear_rhs_def t_axis_rhs_def
                     f_linear_axis_rhs_def f_linear_axis_str_rhs_def amp_to_db_def
                     and_then_def attr_def lib_call_def
               split: sum.splits if_splits)
  qed
qed

text \<open>
  The claim C8 says that construction fails with a dedicated error, before any spectral
  computation, when the waveform is empty or the sample rate is not positive. The
  constructor has no check: for an empty waveform it reaches the STFT call, and the
  outcome is whatever that call does. With the library that rejects an empty signal the
  library's own exception comes out; with a library that accepts it, construction
  succeeds. For a sample rate of 0 the derived lengths are all 0 and the same happens; a
  negative sample rate ends in the \<^verbatim>\<open>ValueError\<close> of \<^verbatim>\<open>int(nan)\<close>.
\<close>

theorem init_no_validation_counterexample:
  "init toy_lib (Obj 0 []) 48000 40 4 128 1 = Inl (LibraryError ParameterError)
   \<and> \<not> isl (init lenient_lib (Obj 0 []) 48000 40 4 128 1)
   \<and> init toy_lib (Obj 0 [3, - 1, 2]) 0 40 4 128 1 = Inl (LibraryError ParameterError)
   \<and> init lenient_lib (Obj 0 [3, - 1, 2]) 0 40 4 128 1 = Inl ZeroDivisionError
   \<and> init toy_lib (Obj 0 [3, - 1, 2]) (- 48000) 40 4 128 1 = Inl ValueError"
proof -
  have neg: "win_length_of (- 48000) 40 = - 1920"
    using py_round_of_int[of "- 1920"] by (simp add: win_length_of_def)
  have zero: "win_length_of 0 40 = 0"
    by (simp add: win_length_of_def py_round_zero)
  have a: "init toy_lib (Obj 0 []) 48000 40 4 128 1 = Inl (LibraryError ParameterError)"
    by (simp add: run_defs win_length_48000_40 ceillog2_1920 py_round_numeral)
  have b: "\<not> isl (init lenient_lib (Obj 0 []) 48000 40 4 128 1)"
    by (simp add: run_defs win_length_48000_40 ceillog2_1920 py_round_numeral)
  have c: "init toy_lib (Obj 0 [3, - 1, 2]) 0 40 4 128 1 = Inl (LibraryError ParameterError)"
    by (simp add: run_defs zero py_round_zero)
  have d: "init lenient_lib (Obj 0 [3, - 1, 2]) 0 40 4 128 1 = Inl ZeroDivisionError"
    by (simp add: run_defs zero py_round_zero)
  have e: "init toy_lib (Obj 0 [3, - 1, 2]) (- 48000) 40 4 128 1 = Inl ValueError"
    using py_round_of_int[of "- 480"] by (simp add: run_defs neg)
  show ?thesis using a b c d e by simp
qed

text \<open>
  Claim C8, amended. Construction validates nothing. It fails exactly through an exception
  of Python arithmetic or of a library call, which leaves the constructor unchanged:
  \<^verbatim>\<open>ZeroDivisionError\<close> for an overlap of 0 or (after the STFT has run) a derived window
  length of 0, \<^verbatim>\<open>ValueError\<close> for a negative derived window length, or the exception of
  a numeric-library call. With a non-zero overlap and a non-negative derived window
  length, which covers an empty waveform and a sample rate of 0, the STFT is called, and
  if it raises, that exception is the constructor's.
\<close>

theorem init_failures:
  fixes lib :: "('a, 'x) numlib"
  shows "(init lib w sr0 wm ov nm c = Inl err \<longrightarrow>
            (err = ZeroDivisionError \<and> (ov = 0 \<or> win_length_of sr0 wm = 0))
          \<or> (err = ValueError \<and> win_length_of sr0 wm < 0)
          \<or> (\<exists>x. err = LibraryError x))
       \<and> (\<forall>x n. ov \<noteq> 0 \<and> n_fft_of (win_length_of sr0 wm) = (Inr n :: 'x error + int)
              \<and> stft lib (if 1 < ndim lib (val w) then mean_axis1 lib (val w) else val w) n
                   (py_round (of_int (win_length_of sr0 wm) / ov)) (win_length_of sr0 wm) = Inl x
              \<longrightarrow> init lib w sr0 wm ov nm c = Inl (LibraryError x))"
proof
  let ?L = "win_length_of sr0 wm"
  show "init lib w sr0 wm ov nm c = Inl err \<longrightarrow>
            (err = ZeroDivisionError \<and> (ov = 0 \<or> ?L = 0))
          \<or> (err = ValueError \<and> ?L < 0)
          \<or> (\<exists>x. err = LibraryError x)"
  proof
    assume f: "init lib w sr0 wm ov nm c = Inl err"
    show "(err = ZeroDivisionError \<and> (ov = 0 \<or> ?L = 0))
          \<or> (err = ValueError \<and> ?L < 0) \<or> (\<exists>x. err = LibraryError x)"
    proof (cases "ov = 0")
      case True
      then have "init lib w sr0 wm ov nm c = Inl ZeroDivisionError"
        by (simp add: init_def Let_def and_then_def round_div_def)
      then show ?thesis using f True by simp
    next
      case False
      then have h: "(round_div ?L ov :: 'x error + int) = Inr (py_round (of_int ?L / ov))"
        by (simp add: round_div_def)
      show ?thesis
      proof (cases "?L < 0")
        case True
        then have "init lib w sr0 wm ov nm c = Inl ValueError"
          using h by (simp add: init_def Let_def and_then_def n_fft_of_def)
        then show ?thesis using f True by simp
      next
        case nonneg: False
        define n where "n = (if ?L = 0 then 0 else 2 ^ ceillog2 (nat ?L) :: int)"
        have n: "(n_fft_of ?L :: 'x error + int) = Inr n"
          using nonneg by (simp add: n_fft_of_def n_def)
        let ?m = "if 1 < ndim lib (val w) then (Obj c (mean_axis1 lib (val w)), Suc c) else (w, c)"
        let ?e0 = "\<lparr>wav = fst ?m, sr = sr0, win_length = ?L,
               hop_length = py_round (of_int ?L / ov), n_fft = n,
               n_mel = nm, floor_db = - 120,
               spec = None, linear_db = None, t_axis = None, f_linear_axis = None,
               f_linear_axis_str = None, mel_db = None, f_mel_axis = None,
               f_mel_axis_str = None\<rparr>"
        obtain r s1 where run: "update_linear lib (?e0, snd ?m) = (r, s1)"
          by (cases "update_linear lib (?e0, snd ?m)")
        have "r = Raised err"
          using f h n run by (cases r) (simp_all add: init_def Let_def and_then_def)
        with run have "update_linear lib (?e0, snd ?m) = (Raised err, s1)" by simp
        from update_linear_Raised[OF this] show ?thesis by auto
      qed
    qed
  qed
  show "\<forall>x n. ov \<noteq> 0 \<and> n_fft_of ?L = (Inr n :: 'x error + int)
              \<and> stft lib (if 1 < ndim lib (val w) then mean_axis1 lib (val w) else val w) n
                   (py_round (of_int ?L / ov)) ?L = Inl x
              \<longrightarrow> init lib w sr0 wm ov nm c = Inl (LibraryError x)"
    by (simp add: init_def Let_def and_then_def round_div_def update_linear_def assign_def
                  spec_rhs_def lib_call_def)
qed

theorem init_failures_witness:
  "init toy_lib (Obj 0 []) 48000 40 4 128 1 = Inl (LibraryError ParameterError)
   \<and> (4::rat) \<noteq> 0 \<and> (n_fft_of (win_length_of 48000 40) :: lib_exc error + int) = Inr 2048
   \<and> (\<exists>x. LibraryError ParameterError = (LibraryError x :: lib_exc error))"
proof -
  have ov: "(4::rat) \<noteq> 0" by simp
  have n: "(n_fft_of (win_length_of 48000 40) :: lib_exc error + int) = Inr 2048"
    by (simp add: n_fft_of_def win_length_48000_40 ceillog2_1920)
  have st: "stft toy_lib (if 1 < ndim toy_lib (val (Obj 0 [])) then mean_axis1 toy_lib (val (Obj 0 []))
                          else val (Obj 0 [])) 2048
              (py_round (of_int (win_length_of 48000 40) / 4)) (win_length_of 48000 40) =
            Inl ParameterError"
    by (simp add: toy_lib_def lenient_lib_def)
  note t = init_failures[of toy_lib "Obj 0 []" 48000 40 4 128 1 "LibraryError ParameterError"]
  have a: "init toy_lib (Obj 0 []) 48000 40 4 128 1 = Inl (LibraryError ParameterError)"
    by (rule t[THEN conjunct2, rule_format, OF conjI[OF ov conjI[OF n st]]])
  have "(LibraryError ParameterError = (ZeroDivisionError :: lib_exc error)
           \<and> ((4::rat) = 0 \<or> win_length_of 48000 40 = 0))
      \<or> (LibraryError ParameterError = (ValueError :: lib_exc error) \<and> win_length_of 48000 40 < 0)
      \<or> (\<exists>x. LibraryError ParameterError = (LibraryError x :: lib_exc error))"
    by (rule mp[OF t[THEN conjunct1] a])
  then have b: "\<exists>x. LibraryError ParameterError = (LibraryError x :: lib_exc error)"
    by simp
  show ?thesis using a ov n b by simp
qed

section \<open>The batch dispatcher\<close>

text \<open>
  Claim C5. For a batch of \<open>C \<ge> 1\<close> files the thread cap is
  \<^verbatim>\<open>max(2, cpu_count // C)\<close> (integer division), with \<open>C\<close> the number of uploaded
  contents of this batch; it is computed once, every job of the batch carries this same
  value, and since it is at least 2 it is the limit each job sets for the numeric
  library.
\<close>

theorem thread_cap_per_batch:
  assumes "contents_list \<noteq> []"
  shows "(\<forall>j \<in> set (batch_jobs cpu_count contents_list filenames win_ms overlap n_mel0 freq_scale).
            j_n_threads j = max 2 (cpu_count div int (length contents_list))
          \<and> blas_limit (j_n_threads j) = Some (max 2 (cpu_count div int (length contents_list))))
       \<and> length (batch_jobs cpu_count contents_list filenames win_ms overlap n_mel0 freq_scale) =
           min (length contents_list) (length filenames)"
  by (auto simp: batch_jobs_def n_threads_of_def blas_limit_def Let_def)

theorem thread_cap_per_batch_witness:
  "[''x,ok'', ''y,bad''] \<noteq> []
   \<and> map j_n_threads
       (batch_jobs 8 [''x,ok'', ''y,bad'', ''z,ok''] [''a.wav'', ''b.wav'', ''c.wav'']
          40 4 128 ''mel'') = [2, 2, 2]
   \<and> map j_n_threads
       (batch_jobs 16 [''x,ok'', ''y,bad''] [''a.wav'', ''b.wav''] 40 4 128 ''mel'') = [8, 8]
   \<and> map (\<lambda>j. blas_limit (j_n_threads j))
       (batch_jobs 16 [''x,ok'', ''y,bad''] [''a.wav'', ''b.wav''] 40 4 128 ''mel'') =
     [Some 8, Some 8]"
proof -
  let ?jobs = "batch_jobs 16 [''x,ok'', ''y,bad''] [''a.wav'', ''b.wav''] 40 4 128 ''mel''"
  have ne2: "[''x,ok'', ''y,bad''] \<noteq> []" by simp
  have a: "map j_n_threads
       (batch_jobs 8 [''x,ok'', ''y,bad'', ''z,ok''] [''a.wav'', ''b.wav'', ''c.wav'']
          40 4 128 ''mel'') = [2, 2, 2]"
    by (simp add: batch_jobs_def n_threads_of_def)
  have b: "map j_n_threads ?jobs = [8, 8]"
    by (simp add: batch_jobs_def n_threads_of_def)
  note t = thread_cap_per_batch[OF ne2, of 16 "[''a.wav'', ''b.wav'']" 40 4 128 "''mel''"]
  have every: "\<And>j. j \<in> set ?jobs \<Longrightarrow> blas_limit (j_n_threads j) = Some 8"
    using t[THEN conjunct1] by (simp add: blas_limit_def)
  have len: "length ?jobs = 2"
    using t[THEN conjunct2] by simp
  have "map (\<lambda>j. blas_limit (j_n_threads j)) ?jobs = map (\<lambda>j. Some 8) ?jobs"
    using every by (simp cong: map_cong)
  also have "\<dots> = replicate (length ?jobs) (Some 8)"
    by (simp add: map_replicate_const)
  also have "\<dots> = [Some 8, Some 8]"
    unfolding len by (simp add: numeral_2_eq_2)
  finally have c: "map (\<lambda>j. blas_limit (j_n_threads j)) ?jobs = [Some 8, Some 8]" .
  show ?thesis using ne2 a b c by simp
qed

text \<open>A constructor call of the toy library on three samples at 48 kHz, at any counter.\<close>

lemma init_toy:
  "init toy_lib (Obj k [3, - 1, 2]) 48000 40 4 128 c =
     Inr (\<lparr>wav = Obj k [3, - 1, 2], sr = 48000, win_length = 1920, hop_length = 480,
           n_fft = 2048, n_mel = 128, floor_db = - 120,
           spec = Some (Obj c [2048, 480, 1920, 3, 1, 2]),
           linear_db = Some (Obj (Suc c) [120, 2048, 480, 1920, 3, 1, 2]),
           t_axis = Some (Obj (Suc (Suc c)) [480, 48000]),
           f_linear_axis = Some (Obj (Suc (Suc (Suc c))) [0, 24000, 1025]),
           f_linear_axis_str = Some (Obj (Suc (Suc (Suc (Suc c)))) [0, 24000, 1025, 480, 48000]),
           mel_db = Some (Obj (Suc (Suc (Suc (Suc (Suc c)))))
                      [120, 48000, 2048, 128, 2048, 480, 1920, 3, 1, 2]),
           f_mel_axis = Some (Obj (Suc (Suc (Suc (Suc (Suc (Suc c)))))) [128, 24000]),
           f_mel_axis_str = Some (Obj (Suc (Suc (Suc (Suc (Suc (Suc (Suc c)))))))
                              [128, 24000, 480, 48000])\<rparr>,
          Suc (Suc (Suc (Suc (Suc (Suc (Suc (Suc c))))))))"
  by (simp add: run_defs win_length_48000_40 ceillog2_1920 py_round_numeral)

lemma split_ok: "split_on CHR '','' ''x,ok'' = [''x'', ''ok'']"
  and split_bad: "split_on CHR '','' ''y,bad'' = [''y'', ''bad'']"
  and split_z: "split_on CHR '','' ''z,ok'' = [''z'', ''ok'']"
  by simp_all

text \<open>
  Claim C7 against the code. The job of a file that \<^verbatim>\<open>sf.read\<close> cannot decode does return
  the placeholder instead of raising, and the dispatch hands back three results. But the
  loop that collects them unpacks every result as \<^verbatim>\<open>(spec, *plot)\<close>: at the placeholder
  it raises \<^verbatim>\<open>ValueError\<close>, the callback fails, and of the two valid instances only the
  one before the placeholder has reached \<^verbatim>\<open>specs\<close>.
\<close>

theorem update_graphs_placeholder_raises:
  "run_job toy_io (\<lambda>limit. toy_lib)
     \<lparr>j_contents = ''y,bad'', j_fname = ''b.wav'', j_win_ms = 40, j_overlap = 4,
      j_n_mel = 128, j_freq_scale = ''mel'', j_n_threads = 2\<rparr> 9 = Inr (Placeholder, 9)
   \<and> fst (update_graphs_upload toy_io (\<lambda>limit. toy_lib) 8
            [''x,ok'', ''y,bad'', ''z,ok''] ''mel'' 40 4 128 [''a.wav'', ''b.wav'', ''c.wav'']
            \<lparr>specs = [], fig = None, next_id = 0\<rparr>) = Raised ValueError
   \<and> specs (snd (update_graphs_upload toy_io (\<lambda>limit. toy_lib) 8
            [''x,ok'', ''y,bad'', ''z,ok''] ''mel'' 40 4 128 [''a.wav'', ''b.wav'', ''c.wav'']
            \<lparr>specs = [], fig = None, next_id = 0\<rparr>)) = [fst demo]"
proof -
  have job: "run_job toy_io (\<lambda>limit. toy_lib)
     \<lparr>j_contents = ''y,bad'', j_fname = ''b.wav'', j_win_ms = 40, j_overlap = 4,
      j_n_mel = 128, j_freq_scale = ''mel'', j_n_threads = 2\<rparr> 9 = Inr (Placeholder, 9)"
    by (simp add: run_job_def parse_contents_def split_bad toy_io_def and_then_def lib_call_def)
  have d: "init toy_lib (Obj 0 [3, - 1, 2]) 48000 40 4 128 (Suc 0) = Inr demo"
    using init_demo by simp
  have run: "update_graphs_upload toy_io (\<lambda>limit. toy_lib) 8
            [''x,ok'', ''y,bad'', ''z,ok''] ''mel'' 40 4 128 [''a.wav'', ''b.wav'', ''c.wav'']
            \<lparr>specs = [], fig = None, next_id = 0\<rparr> =
         (Raised ValueError,
          \<lparr>specs = [fst demo],
           fig = Some \<lparr>annotations = [''a.wav'' @ '' (sr='' @ format_d 48000 @ '' Hz)'',
                                      ''b.wav'', ''c.wav''],
                       traces = [], max_amp = 0\<rparr>,
           next_id = 18\<rparr>)"
    unfolding update_graphs_upload_def batch_jobs_def n_threads_of_def run_job_def
      parse_contents_def
    by (simp add: split_ok split_bad split_z toy_io_def and_then_def lib_call_def init_toy
                  demo_eq del: dec.simps)
  show ?thesis using job run by simp
qed

end
